theory Spec2Isabelle
  imports Complex_Main "HOL-Library.Word"
begin

section \<open>Data model of clutter-settings.c\<close>

text \<open>
  Conventions. A \<^verbatim>\<open>gint\<close> that is only stored, compared and converted is an \<^typ>\<open>int\<close>;
  the value \<^verbatim>\<open>g_settings_get_enum\<close> returns is kept as its 32 bits (\<^typ>\<open>32 word\<close>), since
  \<^verbatim>\<open>get_font_gsettings\<close> assigns it to a \<^verbatim>\<open>guint\<close> and compares it unsigned. A
  \<^verbatim>\<open>gdouble\<close> is a binary64 value (below), and its products are rounded as binary64
  rounds them. A pointer is an \<^typ>\<open>'a option\<close>, \<^verbatim>\<open>NULL\<close> being \<^term>\<open>None\<close>; a
  \<^verbatim>\<open>gchar *\<close> is a \<^typ>\<open>string option\<close>.
\<close>

subsection \<open>Doubles\<close>

text \<open>
  A \<^verbatim>\<open>gdouble\<close> is an IEEE 754 binary64 value: a finite value, given by the real number it
  stands for, an infinity or a NaN. The two zeros are one value here, since no operation
  of this file tells them apart. Expressions of type \<^verbatim>\<open>double\<close> are evaluated in binary64,
  each product rounded once.
\<close>

datatype gdouble = Finite real | PInf | NInf | NaN

text \<open>
  Rounding to binary64, to nearest with ties to even. \<open>bit_length n\<close> is the number of
  binary digits of a positive integer, \<open>pow2 e\<close> is the e-th power of two, and
  \<open>binade x\<close> is, for x > 0, the exponent e with \<open>pow2 e \<le> x < pow2 (e + 1)\<close>. The unit
  in the last place of x is 52 binary places below its exponent, the exponent being at
  least -1022 (the subnormal range); the nearest binary64 value is the nearest multiple of
  that unit, and from \<open>pow2 1024\<close> on it overflows to an infinity.
\<close>

function bit_length :: "int \<Rightarrow> int" where
  "bit_length n = (if n \<le> 0 then 0 else 1 + bit_length (n div 2))"
  by pat_completeness auto
termination
  by (relation "measure nat") auto

declare bit_length.simps [simp del]

definition pow2 :: "int \<Rightarrow> real" where
  "pow2 e = (if 0 \<le> e then 2 ^ nat e else 1 / 2 ^ nat (- e))"

definition binade :: "real \<Rightarrow> int" where
  "binade x =
     (if 1 \<le> x then bit_length \<lfloor>x\<rfloor> - 1
      else - bit_length (\<lceil>1 / x\<rceil> - 1))"

definition round_half_even :: "real \<Rightarrow> int" where
  "round_half_even r =
     (let f = \<lfloor>r\<rfloor>; d = r - of_int f
      in if d < 1 / 2 then f
         else if 1 / 2 < d then f + 1
         else if even f then f else f + 1)"

definition binary64_ulp :: "real \<Rightarrow> real" where
  "binary64_ulp x = pow2 (max (binade \<bar>x\<bar>) (- 1022) - 52)"

definition binary64_nearest :: "real \<Rightarrow> real" where
  "binary64_nearest x =
     (if x = 0 then 0
      else
        (let y = of_int (round_half_even (\<bar>x\<bar> / binary64_ulp x)) * binary64_ulp x
         in if 0 < x then y else - y))"

definition binary64_round :: "real \<Rightarrow> gdouble" where
  "binary64_round x =
     (let y = binary64_nearest x
      in if pow2 1024 \<le> \<bar>y\<bar> then (if 0 < y then PInf else NInf) else Finite y)"

text \<open>The product of two doubles, and the two comparisons with zero the source makes.\<close>

fun binary64_mul :: "gdouble \<Rightarrow> gdouble \<Rightarrow> gdouble" where
  "binary64_mul (Finite a) (Finite b) = binary64_round (a * b)"
| "binary64_mul NaN y = NaN"
| "binary64_mul x NaN = NaN"
| "binary64_mul (Finite a) PInf = (if a = 0 then NaN else if 0 < a then PInf else NInf)"
| "binary64_mul (Finite a) NInf = (if a = 0 then NaN else if 0 < a then NInf else PInf)"
| "binary64_mul PInf (Finite b) = (if b = 0 then NaN else if 0 < b then PInf else NInf)"
| "binary64_mul NInf (Finite b) = (if b = 0 then NaN else if 0 < b then NInf else PInf)"
| "binary64_mul PInf PInf = PInf"
| "binary64_mul PInf NInf = NInf"
| "binary64_mul NInf PInf = NInf"
| "binary64_mul NInf NInf = PInf"

fun double_ne_zero :: "gdouble \<Rightarrow> bool" where
  "double_ne_zero (Finite a) = (a \<noteq> 0)"
| "double_ne_zero PInf = True"
| "double_ne_zero NInf = True"
| "double_ne_zero NaN = True"

fun double_gt_zero :: "gdouble \<Rightarrow> bool" where
  "double_gt_zero (Finite a) = (0 < a)"
| "double_gt_zero PInf = True"
| "double_gt_zero NInf = False"
| "double_gt_zero NaN = False"

text \<open>
  The conversion of a 32-bit \<^verbatim>\<open>int\<close> to a double is exact, and so is the quotient of such
  a double by 1024.0, a power of two.
\<close>

definition int_to_double_div_1024 :: "int \<Rightarrow> gdouble" where
  "int_to_double_div_1024 i = Finite (real_of_int i / 1024)"

definition c_trunc :: "real \<Rightarrow> int" where
  "c_trunc x = (if 0 \<le> x then \<lfloor>x\<rfloor> else \<lceil>x\<rceil>)"

subsection \<open>Cairo enumerations and the font options object\<close>

datatype cairo_antialias_t =
  CAIRO_ANTIALIAS_DEFAULT | CAIRO_ANTIALIAS_NONE | CAIRO_ANTIALIAS_GRAY | CAIRO_ANTIALIAS_SUBPIXEL

datatype cairo_hint_style_t =
  CAIRO_HINT_STYLE_DEFAULT | CAIRO_HINT_STYLE_NONE | CAIRO_HINT_STYLE_SLIGHT
  | CAIRO_HINT_STYLE_MEDIUM | CAIRO_HINT_STYLE_FULL

datatype cairo_subpixel_order_t =
  CAIRO_SUBPIXEL_ORDER_DEFAULT | CAIRO_SUBPIXEL_ORDER_RGB | CAIRO_SUBPIXEL_ORDER_BGR
  | CAIRO_SUBPIXEL_ORDER_VRGB | CAIRO_SUBPIXEL_ORDER_VBGR

datatype cairo_hint_metrics_t =
  CAIRO_HINT_METRICS_DEFAULT | CAIRO_HINT_METRICS_OFF | CAIRO_HINT_METRICS_ON

record cairo_font_options_t =
  hint_metrics :: cairo_hint_metrics_t
  hint_style :: cairo_hint_style_t
  antialias :: cairo_antialias_t
  subpixel_order :: cairo_subpixel_order_t

definition cairo_font_options_create :: cairo_font_options_t where
  "cairo_font_options_create =
     \<lparr>hint_metrics = CAIRO_HINT_METRICS_DEFAULT, hint_style = CAIRO_HINT_STYLE_DEFAULT,
      antialias = CAIRO_ANTIALIAS_DEFAULT, subpixel_order = CAIRO_SUBPIXEL_ORDER_DEFAULT\<rparr>"

subsection \<open>The platform preference stores\<close>

text \<open>
  A \<^verbatim>\<open>GSettings\<close> object is read through four typed getters, each from a key to a value.
  The getters belong to GLib. On a \<^verbatim>\<open>NULL\<close> object their precondition checks
  (\<^verbatim>\<open>g_return_val_if_fail\<close>) log a critical message and return the failure value: -1
  from \<^verbatim>\<open>g_settings_get_enum\<close>, and zero or \<^verbatim>\<open>FALSE\<close> from the three others.
\<close>

record GSettings =
  enum_of :: "string \<Rightarrow> 32 word"
  int_of :: "string \<Rightarrow> int"
  boolean_of :: "string \<Rightarrow> bool"
  double_of :: "string \<Rightarrow> gdouble"

definition g_settings_get_enum :: "GSettings option \<Rightarrow> string \<Rightarrow> 32 word" where
  "g_settings_get_enum settings key = (case settings of None \<Rightarrow> - 1 | Some g \<Rightarrow> enum_of g key)"

definition g_settings_get_int :: "GSettings option \<Rightarrow> string \<Rightarrow> int" where
  "g_settings_get_int settings key = (case settings of None \<Rightarrow> 0 | Some g \<Rightarrow> int_of g key)"

definition g_settings_get_boolean :: "GSettings option \<Rightarrow> string \<Rightarrow> bool" where
  "g_settings_get_boolean settings key =
     (case settings of None \<Rightarrow> False | Some g \<Rightarrow> boolean_of g key)"

definition g_settings_get_double :: "GSettings option \<Rightarrow> string \<Rightarrow> gdouble" where
  "g_settings_get_double settings key =
     (case settings of None \<Rightarrow> Finite 0 | Some g \<Rightarrow> double_of g key)"

subsection \<open>The translator \<^verbatim>\<open>get_font_gsettings\<close>\<close>

record FontSettings =
  cairo_antialias :: cairo_antialias_t
  clutter_font_antialias :: int
  cairo_hint_style :: cairo_hint_style_t
  clutter_font_hint_style :: "string option"
  cairo_subpixel_order :: cairo_subpixel_order_t
  clutter_font_subpixel_order :: "string option"

definition antialiasings :: "(cairo_antialias_t \<times> int) list" where
  "antialiasings =
     [(CAIRO_ANTIALIAS_NONE, 0), (CAIRO_ANTIALIAS_GRAY, 1), (CAIRO_ANTIALIAS_SUBPIXEL, 1)]"

definition hintings :: "(cairo_hint_style_t \<times> string) list" where
  "hintings =
     [(CAIRO_HINT_STYLE_NONE, ''hintnone''), (CAIRO_HINT_STYLE_SLIGHT, ''hintslight''),
      (CAIRO_HINT_STYLE_MEDIUM, ''hintmedium''), (CAIRO_HINT_STYLE_FULL, ''hintfull'')]"

definition rgba_orders :: "(cairo_subpixel_order_t \<times> string) list" where
  "rgba_orders =
     [(CAIRO_SUBPIXEL_ORDER_RGB, ''rgb''), (CAIRO_SUBPIXEL_ORDER_RGB, ''rgb''),
      (CAIRO_SUBPIXEL_ORDER_BGR, ''bgr''), (CAIRO_SUBPIXEL_ORDER_VRGB, ''vrgb''),
      (CAIRO_SUBPIXEL_ORDER_VBGR, ''vbgr'')]"

text \<open>
  The three lookups of \<^verbatim>\<open>get_font_gsettings\<close>, each \<^verbatim>\<open>i < G_N_ELEMENTS (table)\<close> on the
  unsigned index, followed by the override of the sub-pixel label under grayscale.
\<close>

definition get_font_gsettings :: "GSettings option \<Rightarrow> FontSettings" where
  "get_font_gsettings settings =
     (let i = unat (g_settings_get_enum settings ''font-hinting'');
          (hs, hs_name) =
            (if i < length hintings then (fst (hintings ! i), Some (snd (hintings ! i)))
             else (CAIRO_HINT_STYLE_DEFAULT, None));
          i = unat (g_settings_get_enum settings ''font-antialiasing'');
          (aa, aa_flag) =
            (if i < length antialiasings then (fst (antialiasings ! i), snd (antialiasings ! i))
             else (CAIRO_ANTIALIAS_DEFAULT, - 1));
          i = unat (g_settings_get_enum settings ''font-rgba-order'');
          (so, so_name) =
            (if i < length rgba_orders then (fst (rgba_orders ! i), Some (snd (rgba_orders ! i)))
             else (CAIRO_SUBPIXEL_ORDER_DEFAULT, None))
      in \<lparr>cairo_antialias = aa, clutter_font_antialias = aa_flag,
          cairo_hint_style = hs, clutter_font_hint_style = hs_name,
          cairo_subpixel_order = so,
          clutter_font_subpixel_order =
            (if aa = CAIRO_ANTIALIAS_GRAY then Some ''none'' else so_name)\<rparr>)"

text \<open>A font store holding the three enum keys, for concrete evaluation.\<close>

definition font_store :: "32 word \<Rightarrow> 32 word \<Rightarrow> 32 word \<Rightarrow> GSettings" where
  "font_store h a r =
     \<lparr>enum_of = (\<lambda>k. if k = ''font-hinting'' then h
                     else if k = ''font-antialiasing'' then a
                     else if k = ''font-rgba-order'' then r else 0),
      int_of = (\<lambda>k. 0), boolean_of = (\<lambda>k. False), double_of = (\<lambda>k. Finite 0)\<rparr>"

subsection \<open>The settings object\<close>

datatype ClutterBackend = ClutterBackend

record ClutterSettings =
  backend :: "ClutterBackend option"
  font_settings :: "GSettings option"
  mouse_settings :: "GSettings option"
  mouse_a11y_settings :: "GSettings option"
  double_click_time :: int
  double_click_distance :: int
  dnd_drag_threshold :: int
  resolution :: gdouble
  font_name :: "string option"
  font_dpi :: int
  xft_hinting :: int
  xft_antialias :: int
  xft_hint_style :: "string option"
  xft_rgba :: "string option"
  long_press_duration :: int
  last_fontconfig_timestamp :: nat
  password_hint_time :: nat
  unscaled_font_dpi :: int

datatype prop_id =
  PROP_0
  | PROP_DOUBLE_CLICK_TIME | PROP_DOUBLE_CLICK_DISTANCE
  | PROP_DND_DRAG_THRESHOLD
  | PROP_FONT_NAME
  | PROP_FONT_ANTIALIAS | PROP_FONT_DPI | PROP_FONT_HINTING | PROP_FONT_HINT_STYLE | PROP_FONT_RGBA
  | PROP_LONG_PRESS_DURATION
  | PROP_PASSWORD_HINT_TIME
  | PROP_UNSCALED_FONT_DPI

definition DEFAULT_FONT_NAME :: string where
  "DEFAULT_FONT_NAME = ''Sans 12''"

text \<open>
  \<^verbatim>\<open>clutter_settings_init\<close>, on the zero-filled instance \<^verbatim>\<open>g_object_new\<close> allocates: the
  fields it does not assign are null pointers and zeros.
\<close>

definition clutter_settings_init :: ClutterSettings where
  "clutter_settings_init =
     \<lparr>backend = None, font_settings = None, mouse_settings = None, mouse_a11y_settings = None,
      double_click_time = 250, double_click_distance = 5,
      dnd_drag_threshold = 8,
      resolution = Finite (- 1),
      font_name = Some DEFAULT_FONT_NAME, font_dpi = - 1,
      xft_hinting = - 1, xft_antialias = - 1, xft_hint_style = None, xft_rgba = None,
      long_press_duration = 500,
      last_fontconfig_timestamp = 0,
      password_hint_time = 0,
      unscaled_font_dpi = - 1\<rparr>"

subsection \<open>Values, the environment and what the object emits\<close>

datatype GValue = G_int int | G_uint nat | G_string "string option"

text \<open>GLib's typed readers return the zero value on a \<^verbatim>\<open>GValue\<close> of another type.\<close>

definition g_value_get_int :: "GValue \<Rightarrow> int" where
  "g_value_get_int v = (case v of G_int i \<Rightarrow> i | _ \<Rightarrow> 0)"

definition g_value_get_uint :: "GValue \<Rightarrow> nat" where
  "g_value_get_uint v = (case v of G_uint n \<Rightarrow> n | _ \<Rightarrow> 0)"

definition g_value_dup_string :: "GValue \<Rightarrow> string option" where
  "g_value_dup_string v = (case v of G_string s \<Rightarrow> s | _ \<Rightarrow> None)"

text \<open>
  The process environment read by \<^verbatim>\<open>g_getenv\<close>, and GLib's \<^verbatim>\<open>g_ascii_strtod\<close>, which
  returns zero when it converts nothing. Both are outside this file and are parameters.
  So is the \<^verbatim>\<open>int\<close> the platform's conversion instruction gives for a double whose
  truncation is not a 32-bit \<^verbatim>\<open>int\<close>, or that is an infinity or a NaN: C leaves that
  conversion undefined, and the compiled code goes on with whatever value it gives.
\<close>

record environment =
  g_getenv :: "string \<Rightarrow> string option"
  g_ascii_strtod :: "string \<Rightarrow> gdouble"
  int_of_double_out_of_range :: "gdouble \<Rightarrow> int"

text \<open>
  What an observer sees, in order: a signal emitted by name on the attached backend, the
  font options handed to it, a \<^verbatim>\<open>::notify\<close> emission on the settings object for one
  property, and a logged warning.
\<close>

datatype event =
  G_signal_emit_by_name string
  | Clutter_backend_set_font_options cairo_font_options_t
  | Notify prop_id
  | G_warning string

datatype error = Invalid_property_id

text \<open>
  The C conversion \<^verbatim>\<open>(int) x\<close> of a double: truncation towards zero when the truncated
  value is a 32-bit \<^verbatim>\<open>int\<close>, and the platform's value otherwise.
\<close>

definition double_to_int :: "environment \<Rightarrow> gdouble \<Rightarrow> int" where
  "double_to_int E x =
     (case x of
        Finite a \<Rightarrow>
          (let t = c_trunc a
           in if - 2147483648 \<le> t \<and> t \<le> 2147483647 then t
              else int_of_double_out_of_range E x)
      | _ \<Rightarrow> int_of_double_out_of_range E x)"

subsection \<open>Derived values pushed to the backend\<close>

text \<open>
  \<^verbatim>\<open>settings_update_font_options\<close>: nothing without a backend; otherwise the bundle built
  from the four font fields. The debug note it prints is left out.
\<close>

definition settings_update_font_options :: "ClutterSettings \<Rightarrow> event list" where
  "settings_update_font_options self =
     (case backend self of
        None \<Rightarrow> []
      | Some b \<Rightarrow>
          (let hint_style0 = CAIRO_HINT_STYLE_NONE;
               antialias_mode0 = CAIRO_ANTIALIAS_GRAY;
               subpixel_order0 = CAIRO_SUBPIXEL_ORDER_DEFAULT;
               options = cairo_font_options_create;
               options = options\<lparr>hint_metrics := CAIRO_HINT_METRICS_ON\<rparr>;
               hint_style1 =
                 (if xft_hinting self \<ge> 0 \<and> xft_hint_style self = None
                  then CAIRO_HINT_STYLE_NONE
                  else (case xft_hint_style self of
                          None \<Rightarrow> hint_style0
                        | Some n \<Rightarrow>
                            if n = ''hintnone'' then CAIRO_HINT_STYLE_NONE
                            else if n = ''hintslight'' then CAIRO_HINT_STYLE_SLIGHT
                            else if n = ''hintmedium'' then CAIRO_HINT_STYLE_MEDIUM
                            else if n = ''hintfull'' then CAIRO_HINT_STYLE_FULL
                            else hint_style0));
               options = options\<lparr>hint_style := hint_style1\<rparr>;
               subpixel_order1 =
                 (case xft_rgba self of
                    None \<Rightarrow> subpixel_order0
                  | Some n \<Rightarrow>
                      if n = ''rgb'' then CAIRO_SUBPIXEL_ORDER_RGB
                      else if n = ''bgr'' then CAIRO_SUBPIXEL_ORDER_BGR
                      else if n = ''vrgb'' then CAIRO_SUBPIXEL_ORDER_VRGB
                      else if n = ''vbgr'' then CAIRO_SUBPIXEL_ORDER_VBGR
                      else subpixel_order0);
               options = options\<lparr>subpixel_order := subpixel_order1\<rparr>;
               antialias_mode1 =
                 (if xft_antialias self \<ge> 0 \<and> xft_antialias self = 0 then CAIRO_ANTIALIAS_NONE
                  else if subpixel_order1 \<noteq> CAIRO_SUBPIXEL_ORDER_DEFAULT
                  then CAIRO_ANTIALIAS_SUBPIXEL
                  else if xft_antialias self \<ge> 0 then CAIRO_ANTIALIAS_GRAY
                  else antialias_mode0);
               options = options\<lparr>antialias := antialias_mode1\<rparr>
           in [Clutter_backend_set_font_options options]))"

definition settings_update_font_name :: "ClutterSettings \<Rightarrow> event list" where
  "settings_update_font_name self =
     (case backend self of None \<Rightarrow> [] | Some b \<Rightarrow> [G_signal_emit_by_name ''font-changed''])"

definition settings_update_resolution ::
  "environment \<Rightarrow> ClutterSettings \<Rightarrow> ClutterSettings \<times> event list" where
  "settings_update_resolution E self =
     (let self = (if font_dpi self > 0
                  then self\<lparr>resolution := int_to_double_div_1024 (font_dpi self)\<rparr>
                  else self\<lparr>resolution := Finite 96\<rparr>);
          self = (case g_getenv E ''GDK_DPI_SCALE'' of
                    None \<Rightarrow> self
                  | Some scale_env \<Rightarrow>
                      (let scale = g_ascii_strtod E scale_env
                       in if double_ne_zero scale \<and> double_gt_zero (resolution self)
                          then self\<lparr>resolution := binary64_mul (resolution self) scale\<rparr>
                          else self))
      in (self,
          case backend self of
            None \<Rightarrow> []
          | Some b \<Rightarrow> [G_signal_emit_by_name ''resolution-changed'']))"

subsection \<open>Property accessors\<close>

fun clutter_settings_set_property ::
  "environment \<Rightarrow> prop_id \<Rightarrow> GValue \<Rightarrow> ClutterSettings \<Rightarrow> ClutterSettings \<times> event list" where
  "clutter_settings_set_property E PROP_DOUBLE_CLICK_TIME v self =
     (self\<lparr>double_click_time := g_value_get_int v\<rparr>, [])"
| "clutter_settings_set_property E PROP_DOUBLE_CLICK_DISTANCE v self =
     (self\<lparr>double_click_distance := g_value_get_int v\<rparr>, [])"
| "clutter_settings_set_property E PROP_DND_DRAG_THRESHOLD v self =
     (self\<lparr>dnd_drag_threshold := g_value_get_int v\<rparr>, [])"
| "clutter_settings_set_property E PROP_FONT_NAME v self =
     (let self = self\<lparr>font_name := g_value_dup_string v\<rparr>
      in (self, settings_update_font_name self))"
| "clutter_settings_set_property E PROP_FONT_ANTIALIAS v self =
     (let self = self\<lparr>xft_antialias := g_value_get_int v\<rparr>
      in (self, settings_update_font_options self))"
| "clutter_settings_set_property E PROP_FONT_DPI v self =
     settings_update_resolution E (self\<lparr>font_dpi := g_value_get_int v\<rparr>)"
| "clutter_settings_set_property E PROP_FONT_HINTING v self =
     (let self = self\<lparr>xft_hinting := g_value_get_int v\<rparr>
      in (self, settings_update_font_options self))"
| "clutter_settings_set_property E PROP_FONT_HINT_STYLE v self =
     (let self = self\<lparr>xft_hint_style := g_value_dup_string v\<rparr>
      in (self, settings_update_font_options self))"
| "clutter_settings_set_property E PROP_FONT_RGBA v self =
     (let self = self\<lparr>xft_rgba := g_value_dup_string v\<rparr>
      in (self, settings_update_font_options self))"
| "clutter_settings_set_property E PROP_LONG_PRESS_DURATION v self =
     (self\<lparr>long_press_duration := g_value_get_int v\<rparr>, [])"
| "clutter_settings_set_property E PROP_PASSWORD_HINT_TIME v self =
     (self\<lparr>password_hint_time := g_value_get_uint v\<rparr>, [])"
| "clutter_settings_set_property E PROP_UNSCALED_FONT_DPI v self =
     settings_update_resolution E (self\<lparr>font_dpi := g_value_get_int v\<rparr>)"
| "clutter_settings_set_property E PROP_0 v self = (self, [G_warning ''invalid property id''])"

fun clutter_settings_get_property ::
  "environment \<Rightarrow> prop_id \<Rightarrow> ClutterSettings \<Rightarrow> error + GValue" where
  "clutter_settings_get_property E PROP_DOUBLE_CLICK_TIME self =
     Inr (G_int (double_click_time self))"
| "clutter_settings_get_property E PROP_DOUBLE_CLICK_DISTANCE self =
     Inr (G_int (double_click_distance self))"
| "clutter_settings_get_property E PROP_DND_DRAG_THRESHOLD self =
     Inr (G_int (dnd_drag_threshold self))"
| "clutter_settings_get_property E PROP_FONT_NAME self = Inr (G_string (font_name self))"
| "clutter_settings_get_property E PROP_FONT_ANTIALIAS self = Inr (G_int (xft_antialias self))"
| "clutter_settings_get_property E PROP_FONT_DPI self =
     Inr (G_int (double_to_int E (binary64_mul (resolution self) (Finite 1024))))"
| "clutter_settings_get_property E PROP_FONT_HINTING self = Inr (G_int (xft_hinting self))"
| "clutter_settings_get_property E PROP_FONT_HINT_STYLE self =
     Inr (G_string (xft_hint_style self))"
| "clutter_settings_get_property E PROP_FONT_RGBA self = Inr (G_string (xft_rgba self))"
| "clutter_settings_get_property E PROP_LONG_PRESS_DURATION self =
     Inr (G_int (long_press_duration self))"
| "clutter_settings_get_property E PROP_PASSWORD_HINT_TIME self =
     Inr (G_uint (password_hint_time self))"
| "clutter_settings_get_property E PROP_UNSCALED_FONT_DPI self = Inl Invalid_property_id"
| "clutter_settings_get_property E PROP_0 self = Inl Invalid_property_id"

subsection \<open>Change notification\<close>

text \<open>
  \<^verbatim>\<open>clutter_settings_dispatch_properties_changed\<close> chains up to GObject's implementation,
  which emits \<^verbatim>\<open>::notify\<close> once per entry of the array it is given, in array order, and then
  emits \<^verbatim>\<open>settings-changed\<close> on the backend when one is attached.
\<close>

definition g_object_dispatch_properties_changed :: "prop_id list \<Rightarrow> event list" where
  "g_object_dispatch_properties_changed pspecs = map Notify pspecs"

definition clutter_settings_dispatch_properties_changed ::
  "prop_id list \<Rightarrow> ClutterSettings \<Rightarrow> event list" where
  "clutter_settings_dispatch_properties_changed pspecs self =
     g_object_dispatch_properties_changed pspecs @
     (case backend self of None \<Rightarrow> [] | Some b \<Rightarrow> [G_signal_emit_by_name ''settings-changed''])"

text \<open>
  The flags \<^verbatim>\<open>clutter_settings_class_init\<close> gives the properties: every one is
  \<^verbatim>\<open>G_PARAM_READWRITE\<close> but unscaled-font-dpi, which is \<^verbatim>\<open>G_PARAM_WRITABLE\<close> only.
\<close>

fun g_param_readable :: "prop_id \<Rightarrow> bool" where
  "g_param_readable PROP_DOUBLE_CLICK_TIME = True"
| "g_param_readable PROP_DOUBLE_CLICK_DISTANCE = True"
| "g_param_readable PROP_DND_DRAG_THRESHOLD = True"
| "g_param_readable PROP_FONT_NAME = True"
| "g_param_readable PROP_FONT_ANTIALIAS = True"
| "g_param_readable PROP_FONT_DPI = True"
| "g_param_readable PROP_UNSCALED_FONT_DPI = False"
| "g_param_readable PROP_FONT_HINTING = True"
| "g_param_readable PROP_FONT_HINT_STYLE = True"
| "g_param_readable PROP_FONT_RGBA = True"
| "g_param_readable PROP_LONG_PRESS_DURATION = True"
| "g_param_readable PROP_PASSWORD_HINT_TIME = True"
| "g_param_readable PROP_0 = False"

text \<open>
  \<^verbatim>\<open>g_object_set\<close> is GObject's: it freezes the notification queue, calls the class's
  \<^verbatim>\<open>set_property\<close> for each property of the argument list in order, queueing a
  notification after each write of a readable property, and on thaw calls
  \<^verbatim>\<open>dispatch_properties_changed\<close> once with the queued properties when something was
  queued. How GObject lists what it queued (each property once, in an order of its own) is
  GLib's code: it is the parameter \<open>nqueue\<close>, applied to the readable properties written.
  The writes are those GObject lets through; its validation against the property's range
  is outside.
\<close>

fun set_properties ::
  "environment \<Rightarrow> (prop_id \<times> GValue) list \<Rightarrow> ClutterSettings \<Rightarrow> ClutterSettings \<times> event list" where
  "set_properties E [] self = (self, [])"
| "set_properties E (w # ws) self =
     (let (self1, evs1) = clutter_settings_set_property E (fst w) (snd w) self;
          (self2, evs2) = set_properties E ws self1
      in (self2, evs1 @ evs2))"

definition g_object_set ::
  "(prop_id list \<Rightarrow> prop_id list) \<Rightarrow> environment \<Rightarrow> (prop_id \<times> GValue) list \<Rightarrow>
   ClutterSettings \<Rightarrow> ClutterSettings \<times> event list" where
  "g_object_set nqueue E ws self =
     (let (self1, evs) = set_properties E ws self;
          queued = filter g_param_readable (map fst ws)
      in if queued = [] then (self1, evs)
         else (self1, evs @ clutter_settings_dispatch_properties_changed (nqueue queued) self1))"

subsection \<open>Watchers of the platform stores\<close>

text \<open>
  The property names of the source are those \<^verbatim>\<open>clutter_settings_class_init\<close> installs:
  \<^verbatim>\<open>"font-subpixel-order"\<close> is \<^term>\<open>PROP_FONT_RGBA\<close>, \<^verbatim>\<open>"double-click-time"\<close> is
  \<^term>\<open>PROP_DOUBLE_CLICK_TIME\<close>, and so on. The change-event handlers return \<^verbatim>\<open>FALSE\<close>.
\<close>

definition init_font_options :: "ClutterSettings \<Rightarrow> event list" where
  "init_font_options self =
     (let settings = font_settings self;
          options = cairo_font_options_create;
          fs = get_font_gsettings settings;
          options = options\<lparr>hint_style := cairo_hint_style fs\<rparr>;
          options = options\<lparr>antialias := cairo_antialias fs\<rparr>;
          options = options\<lparr>subpixel_order := cairo_subpixel_order fs\<rparr>
      in [Clutter_backend_set_font_options options])"

definition sync_mouse_options ::
  "(prop_id list \<Rightarrow> prop_id list) \<Rightarrow> environment \<Rightarrow> ClutterSettings \<Rightarrow>
   ClutterSettings \<times> event list" where
  "sync_mouse_options nqueue E self =
     (let double_click = g_settings_get_int (mouse_settings self) ''double-click'';
          drag_threshold = g_settings_get_int (mouse_settings self) ''drag-threshold''
      in g_object_set nqueue E
           [(PROP_DOUBLE_CLICK_TIME, G_int double_click),
            (PROP_DND_DRAG_THRESHOLD, G_int drag_threshold)] self)"

definition on_font_settings_change_event ::
  "(prop_id list \<Rightarrow> prop_id list) \<Rightarrow> environment \<Rightarrow> GSettings option \<Rightarrow> ClutterSettings \<Rightarrow>
   ClutterSettings \<times> event list" where
  "on_font_settings_change_event nqueue E settings self =
     (let fs = get_font_gsettings settings;
          hinting = (if cairo_hint_style fs = CAIRO_HINT_STYLE_NONE then 0 else 1)
      in g_object_set nqueue E
           [(PROP_FONT_HINTING, G_int hinting),
            (PROP_FONT_HINT_STYLE, G_string (clutter_font_hint_style fs)),
            (PROP_FONT_ANTIALIAS, G_int (clutter_font_antialias fs)),
            (PROP_FONT_RGBA, G_string (clutter_font_subpixel_order fs))] self)"

definition on_mouse_settings_change_event ::
  "(prop_id list \<Rightarrow> prop_id list) \<Rightarrow> environment \<Rightarrow> ClutterSettings \<Rightarrow>
   ClutterSettings \<times> event list" where
  "on_mouse_settings_change_event nqueue E self = sync_mouse_options nqueue E self"

subsection \<open>Pointer accessibility\<close>

text \<open>
  Modelled from the spec: the pointer-accessibility types are declared in Clutter headers
  that are not among the sources. The data model lists the control flags
  (secondary-click-enabled, dwell-enabled), the dwell mode (gesture or window), the
  gesture directions (none, left, right, up, down) for the single, double, drag and
  secondary gestures, and the secondary-click delay, dwell delay and dwell threshold.
\<close>

datatype ClutterPointerA11yFlags =
  CLUTTER_A11Y_SECONDARY_CLICK_ENABLED | CLUTTER_A11Y_DWELL_ENABLED

datatype ClutterPointerA11yDwellDirection =
  CLUTTER_A11Y_DWELL_DIRECTION_NONE | CLUTTER_A11Y_DWELL_DIRECTION_LEFT
  | CLUTTER_A11Y_DWELL_DIRECTION_RIGHT | CLUTTER_A11Y_DWELL_DIRECTION_UP
  | CLUTTER_A11Y_DWELL_DIRECTION_DOWN

datatype ClutterPointerA11yDwellMode =
  CLUTTER_A11Y_DWELL_MODE_WINDOW | CLUTTER_A11Y_DWELL_MODE_GESTURE

text \<open>The flags word \<^verbatim>\<open>controls\<close> is the set of the flags that are on.\<close>

record ClutterPointerA11ySettings =
  controls :: "ClutterPointerA11yFlags set"
  dwell_gesture_single :: ClutterPointerA11yDwellDirection
  dwell_gesture_double :: ClutterPointerA11yDwellDirection
  dwell_gesture_drag :: ClutterPointerA11yDwellDirection
  dwell_gesture_secondary :: ClutterPointerA11yDwellDirection
  dwell_mode :: ClutterPointerA11yDwellMode
  secondary_click_delay :: int
  dwell_delay :: int
  dwell_threshold :: int

record ClutterSeat =
  pointer_a11y_settings :: ClutterPointerA11ySettings

text \<open>
  The values of the platform enumerations, from \<^verbatim>\<open>gdesktop-enums.h\<close> (not part of this
  file): both count from zero in the order they are declared.
\<close>

definition G_DESKTOP_MOUSE_DWELL_MODE_WINDOW :: "32 word" where
  "G_DESKTOP_MOUSE_DWELL_MODE_WINDOW = 0"

definition G_DESKTOP_MOUSE_DWELL_DIRECTION_LEFT :: "32 word" where
  "G_DESKTOP_MOUSE_DWELL_DIRECTION_LEFT = 0"

definition G_DESKTOP_MOUSE_DWELL_DIRECTION_RIGHT :: "32 word" where
  "G_DESKTOP_MOUSE_DWELL_DIRECTION_RIGHT = 1"

definition G_DESKTOP_MOUSE_DWELL_DIRECTION_UP :: "32 word" where
  "G_DESKTOP_MOUSE_DWELL_DIRECTION_UP = 2"

definition G_DESKTOP_MOUSE_DWELL_DIRECTION_DOWN :: "32 word" where
  "G_DESKTOP_MOUSE_DWELL_DIRECTION_DOWN = 3"

definition pointer_a11y_settings_flags_pair :: "(string \<times> ClutterPointerA11yFlags) list" where
  "pointer_a11y_settings_flags_pair =
     [(''secondary-click-enabled'', CLUTTER_A11Y_SECONDARY_CLICK_ENABLED),
      (''dwell-click-enabled'', CLUTTER_A11Y_DWELL_ENABLED)]"

definition pointer_a11y_dwell_direction_from_setting ::
  "ClutterSettings \<Rightarrow> string \<Rightarrow> ClutterPointerA11yDwellDirection" where
  "pointer_a11y_dwell_direction_from_setting self key =
     (let dwell_gesture_direction = g_settings_get_enum (mouse_a11y_settings self) key
      in if dwell_gesture_direction = G_DESKTOP_MOUSE_DWELL_DIRECTION_LEFT
         then CLUTTER_A11Y_DWELL_DIRECTION_LEFT
         else if dwell_gesture_direction = G_DESKTOP_MOUSE_DWELL_DIRECTION_RIGHT
         then CLUTTER_A11Y_DWELL_DIRECTION_RIGHT
         else if dwell_gesture_direction = G_DESKTOP_MOUSE_DWELL_DIRECTION_UP
         then CLUTTER_A11Y_DWELL_DIRECTION_UP
         else if dwell_gesture_direction = G_DESKTOP_MOUSE_DWELL_DIRECTION_DOWN
         then CLUTTER_A11Y_DWELL_DIRECTION_DOWN
         else CLUTTER_A11Y_DWELL_DIRECTION_NONE)"

text \<open>
  \<^verbatim>\<open>sync_pointer_a11y_settings\<close>: the seat's bundle is read, every field managed here is
  overwritten from the accessibility store, and the bundle is written back. The two
  delays are the stored seconds times 1000, a binary64 product, converted to \<^verbatim>\<open>int\<close>.
  The store pointer is used as it is; the function has no test for \<^verbatim>\<open>NULL\<close>.
\<close>

definition sync_pointer_a11y_settings ::
  "environment \<Rightarrow> ClutterSettings \<Rightarrow> ClutterSeat \<Rightarrow> ClutterSeat" where
  "sync_pointer_a11y_settings E self seat =
     (let pas = pointer_a11y_settings seat;
          pas = pas\<lparr>controls := {}\<rparr>;
          pas = fold (\<lambda>pair pas.
                        if \<not> g_settings_get_boolean (mouse_a11y_settings self) (fst pair) then pas
                        else pas\<lparr>controls := controls pas \<union> {snd pair}\<rparr>)
                  pointer_a11y_settings_flags_pair pas;
          pas = pas\<lparr>secondary_click_delay :=
                      double_to_int E
                        (binary64_mul (Finite 1000)
                           (g_settings_get_double (mouse_a11y_settings self)
                              ''secondary-click-time''))\<rparr>;
          pas = pas\<lparr>dwell_delay :=
                      double_to_int E
                        (binary64_mul (Finite 1000)
                           (g_settings_get_double (mouse_a11y_settings self) ''dwell-time''))\<rparr>;
          pas = pas\<lparr>dwell_threshold :=
                      g_settings_get_int (mouse_a11y_settings self) ''dwell-threshold''\<rparr>;
          dwell_mode_setting = g_settings_get_enum (mouse_a11y_settings self) ''dwell-mode'';
          pas = (if dwell_mode_setting = G_DESKTOP_MOUSE_DWELL_MODE_WINDOW
                 then pas\<lparr>dwell_mode := CLUTTER_A11Y_DWELL_MODE_WINDOW\<rparr>
                 else pas\<lparr>dwell_mode := CLUTTER_A11Y_DWELL_MODE_GESTURE\<rparr>);
          pas = pas\<lparr>dwell_gesture_single :=
                      pointer_a11y_dwell_direction_from_setting self ''dwell-gesture-single''\<rparr>;
          pas = pas\<lparr>dwell_gesture_double :=
                      pointer_a11y_dwell_direction_from_setting self ''dwell-gesture-double''\<rparr>;
          pas = pas\<lparr>dwell_gesture_drag :=
                      pointer_a11y_dwell_direction_from_setting self ''dwell-gesture-drag''\<rparr>;
          pas = pas\<lparr>dwell_gesture_secondary :=
                      pointer_a11y_dwell_direction_from_setting self
                        ''dwell-gesture-secondary''\<rparr>
      in seat\<lparr>pointer_a11y_settings := pas\<rparr>)"

definition on_mouse_a11y_settings_change_event ::
  "environment \<Rightarrow> ClutterSettings \<Rightarrow> ClutterSeat \<Rightarrow> ClutterSeat" where
  "on_mouse_a11y_settings_change_event E self default_seat =
     sync_pointer_a11y_settings E self default_seat"

definition clutter_settings_ensure_pointer_a11y_settings ::
  "environment \<Rightarrow> ClutterSettings \<Rightarrow> ClutterSeat \<Rightarrow> ClutterSeat" where
  "clutter_settings_ensure_pointer_a11y_settings E settings seat =
     sync_pointer_a11y_settings E settings seat"

subsection \<open>Attaching the backend and loading the stores\<close>

text \<open>
  The schema source maps a schema name to the store \<^verbatim>\<open>g_settings_new_full\<close> opens on it,
  or to \<^term>\<open>None\<close> when the schema is not installed. The third branch of
  \<^verbatim>\<open>load_initial_settings\<close> prints the mouse schema's name in its warning, as the source
  does.
\<close>

definition font_settings_path :: string where
  "font_settings_path = ''org.gnome.desktop.interface''"

definition mouse_settings_path :: string where
  "mouse_settings_path = ''org.gnome.desktop.peripherals.mouse''"

definition mouse_a11y_settings_path :: string where
  "mouse_a11y_settings_path = ''org.gnome.desktop.a11y.mouse''"

definition load_initial_settings ::
  "(prop_id list \<Rightarrow> prop_id list) \<Rightarrow> environment \<Rightarrow> (string \<Rightarrow> GSettings option) \<Rightarrow>
   ClutterSettings \<Rightarrow> ClutterSettings \<times> event list" where
  "load_initial_settings nqueue E source self =
     (let (self, evs1) =
            (case source font_settings_path of
               None \<Rightarrow> (self, [G_warning (''Failed to find schema: '' @ font_settings_path)])
             | Some g \<Rightarrow>
                 (let self = self\<lparr>font_settings := Some g\<rparr>
                  in (self, init_font_options self)));
          (self, evs2) =
            (case source mouse_settings_path of
               None \<Rightarrow> (self, [G_warning (''Failed to find schema: '' @ mouse_settings_path)])
             | Some g \<Rightarrow> sync_mouse_options nqueue E (self\<lparr>mouse_settings := Some g\<rparr>));
          (self, evs3) =
            (case source mouse_a11y_settings_path of
               None \<Rightarrow> (self, [G_warning (''Failed to find schema: '' @ mouse_settings_path)])
             | Some g \<Rightarrow> (self\<lparr>mouse_a11y_settings := Some g\<rparr>, []))
      in (self, evs1 @ evs2 @ evs3))"

definition clutter_settings_set_backend ::
  "(prop_id list \<Rightarrow> prop_id list) \<Rightarrow> environment \<Rightarrow> (string \<Rightarrow> GSettings option) \<Rightarrow>
   ClutterSettings \<Rightarrow> ClutterBackend \<Rightarrow> ClutterSettings \<times> event list" where
  "clutter_settings_set_backend nqueue E source settings b =
     load_initial_settings nqueue E source (settings\<lparr>backend := Some b\<rparr>)"

subsection \<open>Concrete environments for evaluation\<close>

text \<open>
  A converter that agrees with \<^verbatim>\<open>g_ascii_strtod\<close> on the strings used below. "2.0" and
  "0.5" are binary64 values; "0.7" and "1.2" are not, and are read as the nearest ones,
  3152519739159347 / 2^52 and 5404319552844595 / 2^52; "inf" is the infinity; "0" and
  strings that are not numbers give zero. The platform's out-of-range conversion is taken
  to be the smallest \<^verbatim>\<open>int\<close>, as on x86-64.
\<close>

definition sample_strtod :: "string \<Rightarrow> gdouble" where
  "sample_strtod s =
     (if s = ''2.0'' then Finite 2
      else if s = ''0.5'' then Finite (1 / 2)
      else if s = ''0.7'' then Finite (3152519739159347 / 4503599627370496)
      else if s = ''1.2'' then Finite (5404319552844595 / 4503599627370496)
      else if s = ''inf'' then PInf
      else Finite 0)"

definition no_scale_env :: environment where
  "no_scale_env =
     \<lparr>g_getenv = (\<lambda>k. None), g_ascii_strtod = sample_strtod,
      int_of_double_out_of_range = (\<lambda>x. - 2147483648)\<rparr>"

definition scaled_env :: "string \<Rightarrow> environment" where
  "scaled_env str =
     \<lparr>g_getenv = (\<lambda>k. if k = ''GDK_DPI_SCALE'' then Some str else None),
      g_ascii_strtod = sample_strtod,
      int_of_double_out_of_range = (\<lambda>x. - 2147483648)\<rparr>"

subsection \<open>The font-options rule in words\<close>

text \<open>
  The style "mapped from the hint-style string" and the sub-pixel order named by a string
  are the reverse lookups in the translator's tables; a string that is absent or in no row
  maps to the value the bundle starts from (no hinting, the default order).
\<close>

definition hint_style_of_name :: "string option \<Rightarrow> cairo_hint_style_t" where
  "hint_style_of_name name =
     (case name of
        None \<Rightarrow> CAIRO_HINT_STYLE_NONE
      | Some n \<Rightarrow>
          (case find (\<lambda>row. snd row = n) hintings of
             None \<Rightarrow> CAIRO_HINT_STYLE_NONE
           | Some row \<Rightarrow> fst row))"

definition subpixel_order_of_name :: "string option \<Rightarrow> cairo_subpixel_order_t" where
  "subpixel_order_of_name name =
     (case name of
        None \<Rightarrow> CAIRO_SUBPIXEL_ORDER_DEFAULT
      | Some n \<Rightarrow>
          (case find (\<lambda>row. snd row = n) rgba_orders of
             None \<Rightarrow> CAIRO_SUBPIXEL_ORDER_DEFAULT
           | Some row \<Rightarrow> fst row))"

fun is_font_options_event :: "event \<Rightarrow> bool" where
  "is_font_options_event (Clutter_backend_set_font_options options) = True"
| "is_font_options_event (G_signal_emit_by_name name) = False"
| "is_font_options_event (Notify p) = False"
| "is_font_options_event (G_warning msg) = False"

definition attached_settings :: ClutterSettings where
  "attached_settings = clutter_settings_init\<lparr>backend := Some ClutterBackend\<rparr>"

subsection \<open>Runs of the settings object\<close>

text \<open>
  What can happen to the object after \<^verbatim>\<open>clutter_settings_init\<close>: a \<^verbatim>\<open>g_object_set\<close> by any
  caller, the attachment of the backend, and the change events of the font and mouse
  stores, whose handlers are connected only once the store exists.
\<close>

datatype action =
  Object_set "(prop_id \<times> GValue) list"
  | Set_backend "string \<Rightarrow> GSettings option" ClutterBackend
  | Font_settings_change_event
  | Mouse_settings_change_event

fun step ::
  "(prop_id list \<Rightarrow> prop_id list) \<Rightarrow> environment \<Rightarrow> action \<Rightarrow> ClutterSettings \<Rightarrow>
   ClutterSettings \<times> event list" where
  "step nqueue E (Object_set ws) self = g_object_set nqueue E ws self"
| "step nqueue E (Set_backend source b) self = clutter_settings_set_backend nqueue E source self b"
| "step nqueue E Font_settings_change_event self =
     (case font_settings self of
        None \<Rightarrow> (self, [])
      | Some g \<Rightarrow> on_font_settings_change_event nqueue E (Some g) self)"
| "step nqueue E Mouse_settings_change_event self =
     (case mouse_settings self of
        None \<Rightarrow> (self, [])
      | Some g \<Rightarrow> on_mouse_settings_change_event nqueue E self)"

fun run ::
  "(prop_id list \<Rightarrow> prop_id list) \<Rightarrow> environment \<Rightarrow> action list \<Rightarrow> ClutterSettings \<Rightarrow>
   ClutterSettings \<times> event list" where
  "run nqueue E [] self = (self, [])"
| "run nqueue E (a # as) self =
     (let (self1, evs1) = step nqueue E a self;
          (self2, evs2) = run nqueue E as self1
      in (self2, evs1 @ evs2))"

definition nonempty_name :: "string option \<Rightarrow> bool" where
  "nonempty_name name = (case name of None \<Rightarrow> False | Some n \<Rightarrow> n \<noteq> [])"

fun font_name_writes_nonempty :: "action \<Rightarrow> bool" where
  "font_name_writes_nonempty (Object_set ws) =
     list_all (\<lambda>w. fst w \<noteq> PROP_FONT_NAME \<or> nonempty_name (g_value_dup_string (snd w))) ws"
| "font_name_writes_nonempty (Set_backend source b) = True"
| "font_name_writes_nonempty Font_settings_change_event = True"
| "font_name_writes_nonempty Mouse_settings_change_event = True"

text \<open>
  A notification queue for evaluation: a property is appended unless it is queued
  already, so that the queue lists the written properties in the order of their first
  write.
\<close>

definition g_object_notify_queue_add :: "prop_id list \<Rightarrow> prop_id \<Rightarrow> prop_id list" where
  "g_object_notify_queue_add q p = (if p \<in> set q then q else q @ [p])"

definition fifo_queue :: "prop_id list \<Rightarrow> prop_id list" where
  "fifo_queue ps = foldl g_object_notify_queue_add [] ps"

text \<open>
  A mouse store, a schema source with the font and mouse schemas and without the
  accessibility one, and the settings object with a backend and these two stores.
\<close>

definition mouse_store :: GSettings where
  "mouse_store =
     \<lparr>enum_of = (\<lambda>k. 0),
      int_of = (\<lambda>k. if k = ''double-click'' then 400 else 8),
      boolean_of = (\<lambda>k. False), double_of = (\<lambda>k. Finite 0)\<rparr>"

definition sample_schemas :: "string \<Rightarrow> GSettings option" where
  "sample_schemas path =
     (if path = font_settings_path then Some (font_store 1 2 1)
      else if path = mouse_settings_path then Some mouse_store
      else None)"

definition loaded_settings :: ClutterSettings where
  "loaded_settings =
     attached_settings\<lparr>font_settings := Some (font_store 1 2 1),
                        mouse_settings := Some mouse_store\<rparr>"

subsection \<open>Notifications by name\<close>

text \<open>
  The events an observer on the backend sees are the signals emitted on it and the font
  options handed to it; \<^verbatim>\<open>::notify\<close> is emitted on the settings object and a warning goes
  to the log. The field-level notification of a property, in words: a font-name write
  tells the backend "font-changed", a DPI write "resolution-changed", a write of one of
  the four rendering attributes hands it the font options, and the timing properties have
  no notification of their own.
\<close>

fun seen_by_backend :: "event \<Rightarrow> bool" where
  "seen_by_backend (G_signal_emit_by_name name) = True"
| "seen_by_backend (Clutter_backend_set_font_options options) = True"
| "seen_by_backend (Notify p) = False"
| "seen_by_backend (G_warning msg) = False"

fun notification_name :: "event \<Rightarrow> string" where
  "notification_name (G_signal_emit_by_name name) = name"
| "notification_name (Clutter_backend_set_font_options options) = ''set-font-options''"
| "notification_name (Notify p) = ''notify''"
| "notification_name (G_warning msg) = ''warning''"

fun is_notify :: "event \<Rightarrow> bool" where
  "is_notify (Notify p) = True"
| "is_notify (G_signal_emit_by_name name) = False"
| "is_notify (Clutter_backend_set_font_options options) = False"
| "is_notify (G_warning msg) = False"

fun field_notification :: "prop_id \<Rightarrow> string list" where
  "field_notification PROP_FONT_NAME = [''font-changed'']"
| "field_notification PROP_FONT_DPI = [''resolution-changed'']"
| "field_notification PROP_UNSCALED_FONT_DPI = [''resolution-changed'']"
| "field_notification PROP_FONT_ANTIALIAS = [''set-font-options'']"
| "field_notification PROP_FONT_HINTING = [''set-font-options'']"
| "field_notification PROP_FONT_HINT_STYLE = [''set-font-options'']"
| "field_notification PROP_FONT_RGBA = [''set-font-options'']"
| "field_notification PROP_DOUBLE_CLICK_TIME = []"
| "field_notification PROP_DOUBLE_CLICK_DISTANCE = []"
| "field_notification PROP_DND_DRAG_THRESHOLD = []"
| "field_notification PROP_LONG_PRESS_DURATION = []"
| "field_notification PROP_PASSWORD_HINT_TIME = []"
| "field_notification PROP_0 = []"

text \<open>A seat with dwell clicking switched on, for evaluation.\<close>

definition dwell_seat :: ClutterSeat where
  "dwell_seat =
     \<lparr>pointer_a11y_settings =
        \<lparr>controls = {CLUTTER_A11Y_DWELL_ENABLED},
         dwell_gesture_single = CLUTTER_A11Y_DWELL_DIRECTION_UP,
         dwell_gesture_double = CLUTTER_A11Y_DWELL_DIRECTION_DOWN,
         dwell_gesture_drag = CLUTTER_A11Y_DWELL_DIRECTION_RIGHT,
         dwell_gesture_secondary = CLUTTER_A11Y_DWELL_DIRECTION_NONE,
         dwell_mode = CLUTTER_A11Y_DWELL_MODE_GESTURE,
         secondary_click_delay = 1200,
         dwell_delay = 1200,
         dwell_threshold = 10\<rparr>\<rparr>"

section \<open>Rounding to binary64\<close>

lemma pow2_powr: "pow2 e = 2 powr (real_of_int e)"
proof (cases "0 \<le> e")
  case True
  then have "2 powr real_of_int e = 2 powr real (nat e)" by simp
  also have "\<dots> = 2 ^ nat e" by (simp add: powr_realpow)
  finally show ?thesis using True by (simp add: pow2_def)
next
  case False
  then have "2 powr real_of_int e = 2 powr (- real (nat (- e)))" by simp
  also have "\<dots> = 1 / 2 ^ nat (- e)"
    by (simp add: powr_minus powr_realpow divide_inverse)
  finally show ?thesis using False by (simp add: pow2_def)
qed

lemma pow2_pos: "0 < pow2 e"
  by (simp add: pow2_powr)

lemma pow2_add: "pow2 (a + b) = pow2 a * pow2 b"
  by (simp add: pow2_powr powr_add)

lemma pow2_diff: "pow2 (a - b) = pow2 a / pow2 b"
  by (simp add: pow2_powr powr_diff)

lemma pow2_le_iff: "pow2 a \<le> pow2 b \<longleftrightarrow> a \<le> b"
  by (simp add: pow2_powr)

lemma pow2_less_iff: "pow2 a < pow2 b \<longleftrightarrow> a < b"
  by (simp add: pow2_powr)

lemma pow2_nonneg_int: "0 \<le> e \<Longrightarrow> pow2 e = of_int (2 ^ nat e)"
  by (simp add: pow2_def)

lemma bit_length_nonneg: "0 \<le> bit_length n"
proof (induction n rule: bit_length.induct)
  case (1 n)
  then show ?case by (subst bit_length.simps) auto
qed

lemma bit_length_pos: "0 < n \<Longrightarrow> 0 < bit_length n"
  using bit_length_nonneg [of "n div 2"] by (subst bit_length.simps) simp

lemma bit_length_bounds:
  "0 < n \<Longrightarrow> 2 ^ nat (bit_length n - 1) \<le> n \<and> n < 2 ^ nat (bit_length n)"
proof (induction n rule: bit_length.induct)
  case (1 n)
  show ?case
  proof (cases "n = 1")
    case True
    have "bit_length 1 = 1"
      by (subst bit_length.simps, subst bit_length.simps) simp
    with True show ?thesis by simp
  next
    case False
    with "1.prems" have half: "0 < n div 2" by simp
    with "1.IH" "1.prems"
    have ih: "2 ^ nat (bit_length (n div 2) - 1) \<le> n div 2"
      "n div 2 < 2 ^ nat (bit_length (n div 2))"
      by auto
    have bl: "bit_length n = 1 + bit_length (n div 2)"
      using "1.prems" by (subst bit_length.simps) simp
    have p: "0 < bit_length (n div 2)"
      using half by (rule bit_length_pos)
    then have s: "nat (bit_length n - 1) = Suc (nat (bit_length (n div 2) - 1))"
      "nat (bit_length n) = Suc (nat (bit_length (n div 2)))"
      unfolding bl by auto
    from ih(1) have "2 * 2 ^ nat (bit_length (n div 2) - 1) \<le> 2 * (n div 2)" by simp
    also have "\<dots> \<le> n" by simp
    finally have lo: "2 ^ nat (bit_length n - 1) \<le> n" unfolding s by simp
    from ih(2) have "n div 2 + 1 \<le> 2 ^ nat (bit_length (n div 2))" by simp
    then have "2 * (n div 2) + 2 \<le> 2 * 2 ^ nat (bit_length (n div 2))" by simp
    moreover have "n < 2 * (n div 2) + 2" by presburger
    ultimately have hi: "n < 2 ^ nat (bit_length n)" unfolding s by simp
    from lo hi show ?thesis by simp
  qed
qed

lemma binade_bounds:
  assumes "0 < x"
  shows "pow2 (binade x) \<le> x" and "x < pow2 (binade x + 1)"
proof -
  have "pow2 (binade x) \<le> x \<and> x < pow2 (binade x + 1)"
  proof (cases "1 \<le> x")
    case True
    define n where "n = \<lfloor>x\<rfloor>"
    have n: "0 < n" using True unfolding n_def by simp
    have b: "binade x = bit_length n - 1"
      using True by (simp add: binade_def n_def)
    have pos: "0 < bit_length n" using n by (rule bit_length_pos)
    from bit_length_bounds [OF n]
    have lo: "2 ^ nat (bit_length n - 1) \<le> n" and hi: "n + 1 \<le> 2 ^ nat (bit_length n)"
      by auto
    have "pow2 (bit_length n - 1) = of_int (2 ^ nat (bit_length n - 1))"
      using pos by (intro pow2_nonneg_int) simp
    also have "\<dots> \<le> of_int n" using lo by (simp only: of_int_le_iff)
    also have "\<dots> \<le> x" unfolding n_def by simp
    finally have l: "pow2 (binade x) \<le> x" unfolding b .
    have "x < of_int (n + 1)" unfolding n_def by simp
    also have "\<dots> \<le> of_int (2 ^ nat (bit_length n))" using hi by (simp only: of_int_le_iff)
    also have "\<dots> = pow2 (bit_length n)"
      using pos by (subst pow2_nonneg_int) simp_all
    finally have "x < pow2 (binade x + 1)" unfolding b by simp
    with l show ?thesis by simp
  next
    case False
    define m where "m = \<lceil>1 / x\<rceil> - 1"
    from False assms have inv: "1 < 1 / x" by simp
    then have "1 < \<lceil>1 / x\<rceil>" by (simp add: less_ceiling_iff)
    then have m: "0 < m" unfolding m_def by simp
    have b: "binade x = - bit_length m"
      using False by (simp add: binade_def m_def)
    have pos: "0 < bit_length m" using m by (rule bit_length_pos)
    from bit_length_bounds [OF m]
    have lo: "2 ^ nat (bit_length m - 1) \<le> m" and hi: "m + 1 \<le> 2 ^ nat (bit_length m)"
      by auto
    have "1 / x \<le> of_int (m + 1)" unfolding m_def by simp
    also have "\<dots> \<le> of_int (2 ^ nat (bit_length m))" using hi by (simp only: of_int_le_iff)
    also have "\<dots> = pow2 (bit_length m)"
      using pos by (subst pow2_nonneg_int) simp_all
    finally have "1 / x \<le> pow2 (bit_length m)" .
    then have "1 \<le> pow2 (bit_length m) * x"
      using assms by (simp add: field_simps)
    then have "1 / pow2 (bit_length m) \<le> x"
      using pow2_pos [of "bit_length m"] by (simp add: field_simps)
    moreover have "pow2 (- bit_length m) = 1 / pow2 (bit_length m)"
      using pow2_diff [of 0 "bit_length m"] by (simp add: pow2_def)
    ultimately have l: "pow2 (binade x) \<le> x" unfolding b by simp
    have "pow2 (bit_length m - 1) = of_int (2 ^ nat (bit_length m - 1))"
      using pos by (intro pow2_nonneg_int) simp
    also have "\<dots> \<le> of_int m" using lo by (simp only: of_int_le_iff)
    also have "\<dots> < 1 / x" unfolding m_def by linarith
    finally have "pow2 (bit_length m - 1) < 1 / x" .
    then have "pow2 (bit_length m - 1) * x < 1"
      using assms by (simp add: field_simps)
    then have "x < 1 / pow2 (bit_length m - 1)"
      using pow2_pos [of "bit_length m - 1"] by (simp add: field_simps)
    moreover have "pow2 (- bit_length m + 1) = 1 / pow2 (bit_length m - 1)"
      using pow2_diff [of 0 "bit_length m - 1"] by (simp add: pow2_def)
    ultimately have "x < pow2 (binade x + 1)" unfolding b by simp
    with l show ?thesis by simp
  qed
  then show "pow2 (binade x) \<le> x" and "x < pow2 (binade x + 1)" by simp_all
qed

lemma binade_less: "0 < x \<Longrightarrow> x < pow2 k \<Longrightarrow> binade x < k"
  using binade_bounds(1) [of x] pow2_less_iff [of "binade x" k] by linarith

lemma binade_ge: "0 < x \<Longrightarrow> pow2 k \<le> x \<Longrightarrow> k \<le> binade x"
  using binade_bounds(2) [of x] pow2_less_iff [of k "binade x + 1"] by linarith

lemma binade_unique: "pow2 e \<le> x \<Longrightarrow> x < pow2 (e + 1) \<Longrightarrow> binade x = e"
proof -
  assume lo: "pow2 e \<le> x" and hi: "x < pow2 (e + 1)"
  from lo pow2_pos [of e] have pos: "0 < x" by linarith
  from binade_less [OF pos hi] binade_ge [OF pos lo] show ?thesis by simp
qed

lemma round_half_even_of_int: "round_half_even (of_int k) = k"
  by (simp add: round_half_even_def)

lemma round_half_even_ge: "of_int k \<le> r \<Longrightarrow> k \<le> round_half_even r"
proof -
  assume "of_int k \<le> r"
  then have "k \<le> \<lfloor>r\<rfloor>" by (simp add: le_floor_iff)
  then show ?thesis by (simp add: round_half_even_def Let_def)
qed

lemma round_half_even_le: "r \<le> of_int k \<Longrightarrow> round_half_even r \<le> k"
proof -
  assume le: "r \<le> of_int k"
  then have f: "\<lfloor>r\<rfloor> \<le> k" by (simp add: floor_le_iff)
  show ?thesis
  proof (cases "\<lfloor>r\<rfloor> = k")
    case True
    with le have "r = of_int k" by linarith
    then show ?thesis by (simp add: round_half_even_of_int)
  next
    case False
    with f have "\<lfloor>r\<rfloor> + 1 \<le> k" by simp
    then show ?thesis by (simp add: round_half_even_def Let_def)
  qed
qed

lemma binary64_ulp_pos: "0 < binary64_ulp x"
  by (simp add: binary64_ulp_def pow2_pos)

lemma binary64_ulp_minus: "binary64_ulp (- x) = binary64_ulp x"
  by (simp add: binary64_ulp_def)

lemma binary64_nearest_pos:
  "0 < x \<Longrightarrow>
     binary64_nearest x = of_int (round_half_even (x / binary64_ulp x)) * binary64_ulp x"
  by (simp add: binary64_nearest_def Let_def)

lemma binary64_nearest_minus: "binary64_nearest (- x) = - binary64_nearest x"
  by (simp add: binary64_nearest_def Let_def binary64_ulp_minus)

lemma binary64_nearest_nonneg: "0 < x \<Longrightarrow> 0 \<le> binary64_nearest x"
proof -
  assume x: "0 < x"
  then have "0 \<le> x / binary64_ulp x"
    using binary64_ulp_pos [of x] by simp
  then have "(0::int) \<le> round_half_even (x / binary64_ulp x)"
    by (intro round_half_even_ge) simp
  then show ?thesis
    using x binary64_ulp_pos [of x] by (simp add: binary64_nearest_pos)
qed

lemma binary64_ulp_normal:
  assumes "pow2 (- 1022) \<le> x"
  shows "binary64_ulp x = pow2 (binade x - 52)"
proof -
  from assms pow2_pos [of "- 1022"] have pos: "0 < x" by linarith
  from binade_ge [OF pos assms] show ?thesis
    using pos by (simp add: binary64_ulp_def max_def)
qed

lemma binade_scale:
  assumes "0 < x"
  shows "binade (x * pow2 k) = binade x + k"
proof (rule binade_unique)
  from binade_bounds(1) [OF assms] pow2_pos [of k]
  show "pow2 (binade x + k) \<le> x * pow2 k"
    by (simp add: pow2_add)
  from binade_bounds(2) [OF assms] pow2_pos [of k]
  have "x * pow2 k < pow2 (binade x + 1) * pow2 k"
    by simp
  moreover have "binade x + k + 1 = (binade x + 1) + k" by simp
  ultimately show "x * pow2 k < pow2 (binade x + k + 1)"
    by (simp only: pow2_add)
qed

lemma pow2_ge_1: "0 \<le> k \<Longrightarrow> 1 \<le> pow2 k"
  using pow2_le_iff [of 0 k] by (simp add: pow2_def)

lemma binary64_nearest_scale_pos:
  assumes "pow2 (- 1022) \<le> x" and "0 \<le> k"
  shows "binary64_nearest (x * pow2 k) = binary64_nearest x * pow2 k"
proof -
  from assms(1) pow2_pos [of "- 1022"] have pos: "0 < x" by linarith
  then have pos': "0 < x * pow2 k" using pow2_pos [of k] by simp
  have "x * 1 \<le> x * pow2 k"
    using pos pow2_ge_1 [OF assms(2)] by (intro mult_left_mono) simp_all
  with assms(1) have normal': "pow2 (- 1022) \<le> x * pow2 k" by simp
  have ulp: "binary64_ulp (x * pow2 k) = binary64_ulp x * pow2 k"
    unfolding binary64_ulp_normal [OF assms(1)] binary64_ulp_normal [OF normal']
      binade_scale [OF pos]
    using pow2_add [of "binade x - 52" k] by (simp add: algebra_simps)
  have quot: "x * pow2 k / (binary64_ulp x * pow2 k) = x / binary64_ulp x"
    using pow2_pos [of k] by simp
  show ?thesis
    unfolding binary64_nearest_pos [OF pos] binary64_nearest_pos [OF pos'] ulp quot
    by simp
qed

lemma binary64_nearest_multiple:
  assumes "0 < x" and "x / binary64_ulp x = of_int K"
  shows "binary64_nearest x = x"
proof -
  have "binary64_nearest x = of_int K * binary64_ulp x"
    unfolding binary64_nearest_pos [OF assms(1)] assms(2) round_half_even_of_int ..
  also have "\<dots> = x / binary64_ulp x * binary64_ulp x"
    by (simp only: assms(2))
  also have "\<dots> = x"
    using binary64_ulp_pos [of x] by simp
  finally show ?thesis .
qed

lemma pow2_numeral:
  "pow2 53 = 9007199254740992" "pow2 52 = 4503599627370496" "pow2 10 = 1024" "pow2 0 = 1"
  by (simp_all add: pow2_def)

lemma binary64_quotient_less:
  assumes "0 < x"
  shows "x / binary64_ulp x < pow2 53"
proof -
  define e where "e = max (binade x) (- 1022)"
  have "x < pow2 (binade x + 1)" using assms by (rule binade_bounds(2))
  also have "\<dots> \<le> pow2 (e + 1)" unfolding e_def by (simp add: pow2_le_iff)
  also have "\<dots> = pow2 53 * pow2 (e - 52)"
  proof -
    have "e + 1 = 53 + (e - 52)" by simp
    then show ?thesis by (simp only: pow2_add)
  qed
  finally have "x < pow2 53 * binary64_ulp x"
    unfolding binary64_ulp_def e_def using assms by simp
  then show ?thesis
    using binary64_ulp_pos [of x] by (simp add: field_simps)
qed

lemma binary64_nearest_int:
  assumes "0 < d" and "d < 2 ^ 53"
  shows "binary64_nearest (of_int d) = of_int d"
proof (rule binary64_nearest_multiple)
  show pos: "0 < real_of_int d" using assms(1) by simp
  have one: "pow2 0 \<le> real_of_int d" using assms(1) by (simp add: pow2_def)
  then have lo: "0 \<le> binade (real_of_int d)" using pos by (intro binade_ge)
  have "real_of_int d < of_int (2 ^ 53)" using assms(2) by (simp only: of_int_less_iff)
  then have "real_of_int d < pow2 53" by (simp add: pow2_def)
  then have hi: "binade (real_of_int d) < 53" using pos by (intro binade_less)
  define j where "j = 52 - binade (real_of_int d)"
  have j: "0 \<le> j" unfolding j_def using hi by simp
  have "binary64_ulp (real_of_int d) = pow2 (- j)"
    unfolding j_def binary64_ulp_def using lo assms(1) by (simp add: max_def)
  also have "\<dots> = 1 / pow2 j"
    using pow2_diff [of 0 j] by (simp add: pow2_def)
  finally have "real_of_int d / binary64_ulp (real_of_int d) = real_of_int d * pow2 j"
    by simp
  also have "\<dots> = of_int (d * 2 ^ nat j)"
    using j by (simp add: pow2_nonneg_int)
  finally show "real_of_int d / binary64_ulp (real_of_int d) = of_int (d * 2 ^ nat j)" .
qed

lemma binary64_nearest_lower:
  assumes "pow2 (- 1022) \<le> x"
  shows "pow2 (binade x) \<le> binary64_nearest x"
proof -
  from assms pow2_pos [of "- 1022"] have pos: "0 < x" by linarith
  define q where "q = binary64_ulp x"
  have q: "q = pow2 (binade x - 52)" unfolding q_def using assms by (rule binary64_ulp_normal)
  have qpos: "0 < q" unfolding q_def by (rule binary64_ulp_pos)
  have split: "pow2 (binade x) = pow2 52 * q"
    unfolding q using pow2_add [of 52 "binade x - 52"] by simp
  have "pow2 52 * q \<le> x" using binade_bounds(1) [OF pos] split by simp
  then have "pow2 52 \<le> x / q" using qpos by (simp add: field_simps)
  then have "real_of_int (2 ^ 52) \<le> x / q" by (simp add: pow2_numeral)
  then have "2 ^ 52 \<le> round_half_even (x / q)" by (rule round_half_even_ge)
  then have "real_of_int (2 ^ 52) \<le> real_of_int (round_half_even (x / q))"
    by (simp only: of_int_le_iff)
  then have "pow2 52 * q \<le> real_of_int (round_half_even (x / q)) * q"
    using qpos by (simp add: pow2_numeral)
  then show ?thesis
    unfolding split binary64_nearest_pos [OF pos] q_def .
qed

lemma binary64_nearest_idem_pos:
  assumes "0 < x"
  shows "binary64_nearest (binary64_nearest x) = binary64_nearest x"
proof -
  define e where "e = max (binade x) (- 1022)"
  define q where "q = binary64_ulp x"
  define n where "n = round_half_even (x / q)"
  define N where "N = binary64_nearest x"
  have q: "q = pow2 (e - 52)" unfolding q_def e_def binary64_ulp_def using assms by simp
  have qpos: "0 < q" unfolding q_def by (rule binary64_ulp_pos)
  have N: "N = of_int n * q" unfolding N_def n_def q_def using assms by (rule binary64_nearest_pos)
  have e: "- 1022 \<le> e" unfolding e_def by simp
  have "0 \<le> x / q" using assms qpos by simp
  then have n0: "0 \<le> n" unfolding n_def by (intro round_half_even_ge) simp
  have "x / q \<le> real_of_int (2 ^ 53)"
    using binary64_quotient_less [OF assms] unfolding q_def by (simp add: pow2_numeral)
  then have n53: "n \<le> 2 ^ 53" unfolding n_def by (rule round_half_even_le)
  have top: "pow2 53 * q = pow2 (e + 1)"
  proof -
    have "e + 1 = 53 + (e - 52)" by simp
    then show ?thesis unfolding q by (simp only: pow2_add)
  qed
  consider "n = 0" | "0 < n" "n < 2 ^ 53" | "n = 2 ^ 53"
    using n0 n53 by linarith
  then have "binary64_nearest N = N"
  proof cases
    case 1
    then show ?thesis by (simp add: N binary64_nearest_def)
  next
    case 2
    have Npos: "0 < N" unfolding N using 2(1) qpos by simp
    have "real_of_int n < real_of_int (2 ^ 53)" using 2(2) by (simp only: of_int_less_iff)
    then have "N < pow2 53 * q" unfolding N using qpos by (simp add: pow2_numeral)
    then have "binade N < e + 1" unfolding top using Npos by (intro binade_less)
    then have le: "max (binade N) (- 1022) \<le> e" using e by simp
    define j where "j = e - max (binade N) (- 1022)"
    have j: "0 \<le> j" unfolding j_def using le by simp
    have "binary64_ulp N = pow2 (e - 52 - j)"
      unfolding binary64_ulp_def j_def using Npos by simp
    also have "\<dots> = q / pow2 j" unfolding q by (rule pow2_diff)
    finally have "N / binary64_ulp N = of_int n * pow2 j"
      unfolding N using qpos pow2_pos [of j] by simp
    also have "\<dots> = of_int (n * 2 ^ nat j)"
      using j by (simp add: pow2_nonneg_int)
    finally show ?thesis using Npos by (intro binary64_nearest_multiple)
  next
    case 3
    have Ne: "N = pow2 (e + 1)" unfolding N 3 top [symmetric] by (simp add: pow2_numeral)
    then have Npos: "0 < N" by (simp add: pow2_pos)
    have "binade N = e + 1"
      unfolding Ne by (rule binade_unique) (simp_all add: pow2_le_iff pow2_less_iff)
    then have "binary64_ulp N = pow2 (e + 1 - 52)"
      unfolding binary64_ulp_def using Npos e by (simp add: max_def)
    then have "N / binary64_ulp N = pow2 52"
      unfolding Ne using pow2_diff [of "e + 1" "e + 1 - 52"] by simp
    then have "N / binary64_ulp N = of_int (2 ^ 52)"
      by (simp add: pow2_numeral)
    then show ?thesis using Npos by (intro binary64_nearest_multiple)
  qed
  then show ?thesis unfolding N_def .
qed

lemma binary64_nearest_idem: "binary64_nearest (binary64_nearest x) = binary64_nearest x"
proof -
  consider "x = 0" | "0 < x" | "0 < - x" by linarith
  then show ?thesis
  proof cases
    case 1
    then show ?thesis by (simp add: binary64_nearest_def)
  next
    case 2
    then show ?thesis by (rule binary64_nearest_idem_pos)
  next
    case 3
    from binary64_nearest_idem_pos [OF 3] show ?thesis
      by (simp add: binary64_nearest_minus)
  qed
qed

lemma binary64_nearest_scale:
  assumes "pow2 (- 1022) \<le> \<bar>x\<bar>" and "0 \<le> k"
  shows "binary64_nearest (x * pow2 k) = binary64_nearest x * pow2 k"
proof (cases "0 \<le> x")
  case True
  with assms show ?thesis by (simp add: binary64_nearest_scale_pos)
next
  case False
  with assms have "pow2 (- 1022) \<le> - x" by simp
  from binary64_nearest_scale_pos [OF this assms(2)] show ?thesis
    by (simp add: binary64_nearest_minus)
qed

lemma binary64_nearest_normal:
  assumes "pow2 (- 1022) \<le> \<bar>x\<bar>"
  shows "pow2 (- 1022) \<le> \<bar>binary64_nearest x\<bar>"
    and "0 < binary64_nearest x \<longleftrightarrow> 0 < x"
proof -
  have pos: "pow2 (- 1022) \<le> binary64_nearest y" if "pow2 (- 1022) \<le> y" for y
  proof -
    from that pow2_pos [of "- 1022"] have "0 < y" by linarith
    from binade_ge [OF this that] have "pow2 (- 1022) \<le> pow2 (binade y)"
      by (simp add: pow2_le_iff)
    with binary64_nearest_lower [OF that] show ?thesis by linarith
  qed
  show "pow2 (- 1022) \<le> \<bar>binary64_nearest x\<bar>"
  proof (cases "0 \<le> x")
    case True
    with assms pos [of x] show ?thesis by simp
  next
    case False
    with assms pos [of "- x"] show ?thesis by (simp add: binary64_nearest_minus)
  qed
  show "0 < binary64_nearest x \<longleftrightarrow> 0 < x"
  proof (cases "0 \<le> x")
    case True
    with assms pos [of x] pow2_pos [of "- 1022"] show ?thesis by simp
  next
    case False
    with assms pos [of "- x"] pow2_pos [of "- 1022"] show ?thesis
      by (simp add: binary64_nearest_minus)
  qed
qed

lemma binary64_round_int:
  assumes "0 < d" and "d < 2 ^ 53"
  shows "binary64_round (of_int d) = Finite (of_int d)"
proof -
  have "real_of_int d < real_of_int (2 ^ 53)" using assms(2) by (simp only: of_int_less_iff)
  then have "real_of_int d < pow2 53" by (simp add: pow2_numeral)
  also have "pow2 53 < pow2 1024" by (simp add: pow2_less_iff)
  finally have "\<not> pow2 1024 \<le> \<bar>real_of_int d\<bar>" using assms(1) by simp
  then show ?thesis
    by (simp add: binary64_round_def binary64_nearest_int [OF assms] Let_def)
qed

lemma binary64_round_times_1024:
  assumes "pow2 (- 1022) \<le> \<bar>x\<bar>"
  shows "binary64_mul (binary64_round x) (Finite 1024) = binary64_round (x * 1024)"
proof -
  define N where "N = binary64_nearest x"
  have normal: "pow2 (- 1022) \<le> \<bar>N\<bar>"
    unfolding N_def using assms by (rule binary64_nearest_normal(1))
  then have nz: "N \<noteq> 0" using pow2_pos [of "- 1022"] by auto
  have scaled: "binary64_nearest (x * 1024) = N * 1024"
    unfolding N_def using binary64_nearest_scale [OF assms, of 10] by (simp add: pow2_numeral)
  have again: "binary64_nearest (N * 1024) = N * 1024"
    using binary64_nearest_scale [OF normal, of 10] binary64_nearest_idem [of x]
    by (simp add: pow2_numeral N_def)
  have rhs: "binary64_round (x * 1024) =
      (if pow2 1024 \<le> \<bar>N * 1024\<bar> then (if 0 < N then PInf else NInf) else Finite (N * 1024))"
    by (simp add: binary64_round_def scaled Let_def)
  show ?thesis
  proof (cases "pow2 1024 \<le> \<bar>N\<bar>")
    case True
    then have "pow2 1024 \<le> \<bar>N * 1024\<bar>"
      using pow2_pos [of 1024] by (simp add: abs_mult)
    with True show ?thesis
      unfolding rhs by (simp add: binary64_round_def N_def [symmetric] Let_def)
  next
    case False
    then have "binary64_round x = Finite N"
      by (simp add: binary64_round_def N_def [symmetric] Let_def)
    then have "binary64_mul (binary64_round x) (Finite 1024) = binary64_round (N * 1024)"
      by simp
    also have "\<dots> =
      (if pow2 1024 \<le> \<bar>N * 1024\<bar> then (if 0 < N then PInf else NInf) else Finite (N * 1024))"
      by (simp add: binary64_round_def again Let_def)
    finally show ?thesis unfolding rhs .
  qed
qed

section \<open>The enum translator\<close>

lemma nth_hintings:
  "hintings ! 0 = (CAIRO_HINT_STYLE_NONE, ''hintnone'')"
  "hintings ! 1 = (CAIRO_HINT_STYLE_SLIGHT, ''hintslight'')"
  "hintings ! 2 = (CAIRO_HINT_STYLE_MEDIUM, ''hintmedium'')"
  "hintings ! 3 = (CAIRO_HINT_STYLE_FULL, ''hintfull'')"
  "hintings ! Suc 0 = (CAIRO_HINT_STYLE_SLIGHT, ''hintslight'')"
  "length hintings = 4"
  by (simp_all add: hintings_def)

lemma nth_antialiasings:
  "antialiasings ! 0 = (CAIRO_ANTIALIAS_NONE, 0)"
  "antialiasings ! 1 = (CAIRO_ANTIALIAS_GRAY, 1)"
  "antialiasings ! 2 = (CAIRO_ANTIALIAS_SUBPIXEL, 1)"
  "antialiasings ! Suc 0 = (CAIRO_ANTIALIAS_GRAY, 1)"
  "length antialiasings = 3"
  by (simp_all add: antialiasings_def)

lemma get_font_gsettings_hinting:
  "cairo_hint_style (get_font_gsettings settings) =
     (let i = unat (g_settings_get_enum settings ''font-hinting'')
      in if i < length hintings then fst (hintings ! i) else CAIRO_HINT_STYLE_DEFAULT)"
  "clutter_font_hint_style (get_font_gsettings settings) =
     (let i = unat (g_settings_get_enum settings ''font-hinting'')
      in if i < length hintings then Some (snd (hintings ! i)) else None)"
  by (simp_all add: get_font_gsettings_def Let_def split: prod.splits)

lemma get_font_gsettings_antialias:
  "cairo_antialias (get_font_gsettings settings) =
     (let i = unat (g_settings_get_enum settings ''font-antialiasing'')
      in if i < length antialiasings then fst (antialiasings ! i) else CAIRO_ANTIALIAS_DEFAULT)"
  "clutter_font_antialias (get_font_gsettings settings) =
     (let i = unat (g_settings_get_enum settings ''font-antialiasing'')
      in if i < length antialiasings then snd (antialiasings ! i) else - 1)"
  by (simp_all add: get_font_gsettings_def Let_def split: prod.splits)

lemma get_font_gsettings_subpixel_label:
  "clutter_font_subpixel_order (get_font_gsettings settings) =
     (if cairo_antialias (get_font_gsettings settings) = CAIRO_ANTIALIAS_GRAY then Some ''none''
      else let i = unat (g_settings_get_enum settings ''font-rgba-order'')
           in if i < length rgba_orders then Some (snd (rgba_orders ! i)) else None)"
  by (simp add: get_font_gsettings_def Let_def split: prod.splits)

lemma word32_below_3: "unat (i::32 word) < 3 \<Longrightarrow> i = 0 \<or> i = 1 \<or> i = 2"
  by (auto simp: word_unat_eq_iff)

lemma word32_ge_unat: "(n::32 word) \<le> i \<Longrightarrow> unat n \<le> unat i"
  by (simp add: word_le_nat_alt)

text \<open>
  Claim C5. For every value of the platform's hinting enumeration, read as the unsigned
  index of \<^verbatim>\<open>get_font_gsettings\<close>: the indices 0, 1, 2 and 3 give the hint-style strings
  "hintnone", "hintslight", "hintmedium" and "hintfull" with the cairo hint styles none,
  slight, medium and full, and every index from 4 on gives the unset result, a
  \<^verbatim>\<open>NULL\<close> string with the default cairo style.
\<close>

theorem hinting_index_translation:
  fixes settings :: "GSettings option"
  defines "i \<equiv> g_settings_get_enum settings ''font-hinting''"
    and "fs \<equiv> get_font_gsettings settings"
  shows "(i = 0 \<longrightarrow> cairo_hint_style fs = CAIRO_HINT_STYLE_NONE
                   \<and> clutter_font_hint_style fs = Some ''hintnone'')
       \<and> (i = 1 \<longrightarrow> cairo_hint_style fs = CAIRO_HINT_STYLE_SLIGHT
                   \<and> clutter_font_hint_style fs = Some ''hintslight'')
       \<and> (i = 2 \<longrightarrow> cairo_hint_style fs = CAIRO_HINT_STYLE_MEDIUM
                   \<and> clutter_font_hint_style fs = Some ''hintmedium'')
       \<and> (i = 3 \<longrightarrow> cairo_hint_style fs = CAIRO_HINT_STYLE_FULL
                   \<and> clutter_font_hint_style fs = Some ''hintfull'')
       \<and> (4 \<le> i \<longrightarrow> cairo_hint_style fs = CAIRO_HINT_STYLE_DEFAULT
                   \<and> clutter_font_hint_style fs = None)"
proof -
  have big: "4 \<le> i \<Longrightarrow> \<not> unat i < 4"
    using word32_ge_unat [of 4 i] by simp
  show ?thesis
    unfolding fs_def get_font_gsettings_hinting Let_def
    using big by (auto simp: i_def nth_hintings)
qed

theorem hinting_index_translation_witness:
  "clutter_font_hint_style (get_font_gsettings (Some (font_store 0 1 1))) = Some ''hintnone''
   \<and> clutter_font_hint_style (get_font_gsettings (Some (font_store 1 1 1))) = Some ''hintslight''
   \<and> cairo_hint_style (get_font_gsettings (Some (font_store 2 1 1))) = CAIRO_HINT_STYLE_MEDIUM
   \<and> clutter_font_hint_style (get_font_gsettings (Some (font_store 2 1 1))) = Some ''hintmedium''
   \<and> clutter_font_hint_style (get_font_gsettings (Some (font_store 3 1 1))) = Some ''hintfull''
   \<and> cairo_hint_style (get_font_gsettings (Some (font_store 7 1 1))) = CAIRO_HINT_STYLE_DEFAULT
   \<and> clutter_font_hint_style (get_font_gsettings (Some (font_store 7 1 1))) = None"
proof -
  have index: "g_settings_get_enum (Some (font_store h 1 1)) ''font-hinting'' = h" for h
    by (simp add: g_settings_get_enum_def font_store_def)
  have out: "(4::32 word) \<le> 7"
    by simp
  show ?thesis
    using hinting_index_translation [of "Some (font_store 0 1 1)"]
      hinting_index_translation [of "Some (font_store 1 1 1)"]
      hinting_index_translation [of "Some (font_store 2 1 1)"]
      hinting_index_translation [of "Some (font_store 3 1 1)"]
      hinting_index_translation [of "Some (font_store 7 1 1)"] out
    unfolding index by simp
qed

text \<open>
  Claim C6. For every value of the platform's antialiasing enumeration, read as the
  unsigned index: index 0 gives (antialiasing off, flag 0), index 1 (grayscale, flag 1),
  index 2 (sub-pixel, flag 1), and every index from 3 on (the default mode, flag -1); the
  flag is -1 exactly when the index is out of the table's range.
\<close>

theorem antialiasing_index_translation:
  fixes settings :: "GSettings option"
  defines "i \<equiv> g_settings_get_enum settings ''font-antialiasing''"
    and "fs \<equiv> get_font_gsettings settings"
  shows "(i = 0 \<longrightarrow> cairo_antialias fs = CAIRO_ANTIALIAS_NONE \<and> clutter_font_antialias fs = 0)
       \<and> (i = 1 \<longrightarrow> cairo_antialias fs = CAIRO_ANTIALIAS_GRAY \<and> clutter_font_antialias fs = 1)
       \<and> (i = 2 \<longrightarrow> cairo_antialias fs = CAIRO_ANTIALIAS_SUBPIXEL \<and> clutter_font_antialias fs = 1)
       \<and> (3 \<le> i \<longrightarrow> cairo_antialias fs = CAIRO_ANTIALIAS_DEFAULT \<and> clutter_font_antialias fs = - 1)
       \<and> (clutter_font_antialias fs = - 1 \<longleftrightarrow> 3 \<le> i)"
proof -
  have big: "3 \<le> i \<Longrightarrow> \<not> unat i < 3"
    using word32_ge_unat [of 3 i] by simp
  have rows: "i = 0 \<longrightarrow> cairo_antialias fs = CAIRO_ANTIALIAS_NONE \<and> clutter_font_antialias fs = 0"
    "i = 1 \<longrightarrow> cairo_antialias fs = CAIRO_ANTIALIAS_GRAY \<and> clutter_font_antialias fs = 1"
    "i = 2 \<longrightarrow> cairo_antialias fs = CAIRO_ANTIALIAS_SUBPIXEL \<and> clutter_font_antialias fs = 1"
    unfolding fs_def get_font_gsettings_antialias Let_def
    by (auto simp: i_def nth_antialiasings)
  have out: "3 \<le> i \<longrightarrow> cairo_antialias fs = CAIRO_ANTIALIAS_DEFAULT \<and> clutter_font_antialias fs = - 1"
    unfolding fs_def get_font_gsettings_antialias Let_def
    using big by (auto simp: i_def nth_antialiasings)
  have only: "clutter_font_antialias fs = - 1 \<Longrightarrow> 3 \<le> i"
  proof (rule ccontr)
    assume flag: "clutter_font_antialias fs = - 1" and "\<not> 3 \<le> i"
    then have "unat i < 3" by (simp add: word_le_nat_alt)
    then have "i = 0 \<or> i = 1 \<or> i = 2" by (rule word32_below_3)
    with rows flag show False by auto
  qed
  from rows out only show ?thesis by blast
qed

theorem antialiasing_index_translation_witness:
  "cairo_antialias (get_font_gsettings (Some (font_store 0 0 1))) = CAIRO_ANTIALIAS_NONE
   \<and> clutter_font_antialias (get_font_gsettings (Some (font_store 0 0 1))) = 0
   \<and> cairo_antialias (get_font_gsettings (Some (font_store 0 1 1))) = CAIRO_ANTIALIAS_GRAY
   \<and> clutter_font_antialias (get_font_gsettings (Some (font_store 0 1 1))) = 1
   \<and> cairo_antialias (get_font_gsettings (Some (font_store 0 2 1))) = CAIRO_ANTIALIAS_SUBPIXEL
   \<and> clutter_font_antialias (get_font_gsettings (Some (font_store 0 2 1))) = 1
   \<and> cairo_antialias (get_font_gsettings (Some (font_store 0 9 1))) = CAIRO_ANTIALIAS_DEFAULT
   \<and> clutter_font_antialias (get_font_gsettings (Some (font_store 0 9 1))) = - 1"
proof -
  have index: "g_settings_get_enum (Some (font_store 0 a 1)) ''font-antialiasing'' = a" for a
    by (simp add: g_settings_get_enum_def font_store_def)
  have out: "(3::32 word) \<le> 9"
    by simp
  show ?thesis
    using antialiasing_index_translation [of "Some (font_store 0 0 1)"]
      antialiasing_index_translation [of "Some (font_store 0 1 1)"]
      antialiasing_index_translation [of "Some (font_store 0 2 1)"]
      antialiasing_index_translation [of "Some (font_store 0 9 1)"] out
    unfolding index by simp
qed

text \<open>
  Claim C4. Whenever the antialiasing mode read from the platform's font store resolves to
  grayscale, the translator's sub-pixel label is "none", whatever the sub-pixel table
  gave for the store's order (for the order "rgb" too).
\<close>

theorem grayscale_forces_subpixel_none:
  assumes "cairo_antialias (get_font_gsettings settings) = CAIRO_ANTIALIAS_GRAY"
  shows "clutter_font_subpixel_order (get_font_gsettings settings) = Some ''none''"
proof -
  have "clutter_font_subpixel_order (get_font_gsettings settings) =
          (if cairo_antialias (get_font_gsettings settings) = CAIRO_ANTIALIAS_GRAY
           then Some ''none''
           else let i = unat (g_settings_get_enum settings ''font-rgba-order'')
                in if i < length rgba_orders then Some (snd (rgba_orders ! i)) else None)"
    by (rule get_font_gsettings_subpixel_label)
  with assms show ?thesis by simp
qed

theorem grayscale_forces_subpixel_none_witness:
  "cairo_antialias (get_font_gsettings (Some (font_store 1 1 1))) = CAIRO_ANTIALIAS_GRAY
   \<and> snd (rgba_orders ! unat (g_settings_get_enum (Some (font_store 1 1 1)) ''font-rgba-order''))
       = ''rgb''
   \<and> clutter_font_subpixel_order (get_font_gsettings (Some (font_store 1 1 1))) = Some ''none''"
proof -
  have gray: "cairo_antialias (get_font_gsettings (Some (font_store 1 1 1))) = CAIRO_ANTIALIAS_GRAY"
    by (simp add: get_font_gsettings_antialias g_settings_get_enum_def font_store_def
        nth_antialiasings)
  have table: "snd (rgba_orders ! unat (g_settings_get_enum (Some (font_store 1 1 1))
                 ''font-rgba-order'')) = ''rgb''"
    by (simp add: g_settings_get_enum_def font_store_def rgba_orders_def)
  from gray table grayscale_forces_subpixel_none [OF gray] show ?thesis by simp
qed

section \<open>Resolution and the font-dpi property\<close>

lemma double_ne_zero_iff: "double_ne_zero x \<longleftrightarrow> x \<noteq> Finite 0"
  by (cases x) simp_all

lemma settings_update_resolution_value:
  "resolution (fst (settings_update_resolution E self)) =
     (let base = Finite (if font_dpi self > 0 then real_of_int (font_dpi self) / 1024 else 96)
      in case g_getenv E ''GDK_DPI_SCALE'' of
           None \<Rightarrow> base
         | Some str \<Rightarrow>
             if g_ascii_strtod E str = Finite 0 then base
             else binary64_mul base (g_ascii_strtod E str))"
  by (simp add: settings_update_resolution_def Let_def int_to_double_div_1024_def
      double_ne_zero_iff split: option.splits)

text \<open>
  Claim C2. For every integer dpi written to the font-dpi property or to its unscaled
  alias, the recomputed resolution is dpi/1024 when dpi > 0 and 96 otherwise, multiplied by
  the factor \<^verbatim>\<open>g_ascii_strtod\<close> reads from \<^verbatim>\<open>GDK_DPI_SCALE\<close> when that variable is set, the
  product being the binary64 product of the two doubles; a factor of zero, which is also
  what an unparseable string converts to, leaves the resolution as computed. (DPI 98304
  with the factor "2.0" gives 192, with an unparseable factor 96.)
\<close>

theorem font_dpi_resolution:
  assumes "p = PROP_FONT_DPI \<or> p = PROP_UNSCALED_FONT_DPI"
  shows "resolution (fst (clutter_settings_set_property E p (G_int dpi) self)) =
     (let base = Finite (if dpi > 0 then real_of_int dpi / 1024 else 96)
      in case g_getenv E ''GDK_DPI_SCALE'' of
           None \<Rightarrow> base
         | Some str \<Rightarrow>
             if g_ascii_strtod E str = Finite 0 then base
             else binary64_mul base (g_ascii_strtod E str))"
proof -
  have "clutter_settings_set_property E p (G_int dpi) self =
          settings_update_resolution E (self\<lparr>font_dpi := dpi\<rparr>)"
    using assms by (auto simp: g_value_get_int_def)
  then show ?thesis
    by (simp add: settings_update_resolution_value)
qed

theorem font_dpi_resolution_witness:
  "resolution (fst (clutter_settings_set_property (scaled_env ''2.0'') PROP_FONT_DPI (G_int 98304)
      clutter_settings_init)) = Finite 192
   \<and> resolution (fst (clutter_settings_set_property (scaled_env ''two'') PROP_UNSCALED_FONT_DPI
      (G_int 98304) clutter_settings_init)) = Finite 96
   \<and> resolution (fst (clutter_settings_set_property no_scale_env PROP_FONT_DPI (G_int (- 1))
      clutter_settings_init)) = Finite 96
   \<and> resolution (fst (clutter_settings_set_property (scaled_env ''0.7'') PROP_FONT_DPI (G_int 10)
      clutter_settings_init)) = Finite (7 / 1024)"
proof -
  have twice: "binary64_mul (Finite 96) (Finite 2) = Finite 192"
    by code_simp
  have tie: "binary64_mul (Finite (5 / 512)) (Finite (3152519739159347 / 4503599627370496)) =
      Finite (7 / 1024)"
    by code_simp
  show ?thesis
    using font_dpi_resolution [of PROP_FONT_DPI "scaled_env ''2.0''" 98304 clutter_settings_init]
      font_dpi_resolution [of PROP_UNSCALED_FONT_DPI "scaled_env ''two''" 98304
        clutter_settings_init]
      font_dpi_resolution [of PROP_FONT_DPI no_scale_env "- 1" clutter_settings_init]
      font_dpi_resolution [of PROP_FONT_DPI "scaled_env ''0.7''" 10 clutter_settings_init]
    by (simp add: scaled_env_def no_scale_env_def sample_strtod_def twice tie
        del: binary64_mul.simps)
qed

text \<open>
  Claim C9. For every value v and every state of the store, writing v to the deprecated
  unscaled-font-dpi property gives the same state and the same emissions as writing v to
  font-dpi: it stores v in the same field \<^verbatim>\<open>font_dpi\<close> and recomputes the resolution in
  the same way (the field \<^verbatim>\<open>unscaled_font_dpi\<close> is not written).
\<close>

theorem unscaled_font_dpi_alias:
  "clutter_settings_set_property E PROP_UNSCALED_FONT_DPI v self =
     clutter_settings_set_property E PROP_FONT_DPI v self
   \<and> font_dpi (fst (clutter_settings_set_property E PROP_UNSCALED_FONT_DPI v self)) =
       g_value_get_int v
   \<and> unscaled_font_dpi (fst (clutter_settings_set_property E PROP_UNSCALED_FONT_DPI v self)) =
       unscaled_font_dpi self"
  by (simp add: settings_update_resolution_def Let_def split: option.splits)

lemma c_trunc_of_int: "c_trunc (real_of_int d) = d"
  by (simp add: c_trunc_def)

lemma double_to_int_of_int:
  "- 2147483648 \<le> d \<Longrightarrow> d \<le> 2147483647 \<Longrightarrow> double_to_int E (Finite (real_of_int d)) = d"
  by (simp add: double_to_int_def c_trunc_of_int)

lemma resolution_after_font_dpi:
  assumes "0 < d"
  shows "resolution (fst (clutter_settings_set_property E PROP_FONT_DPI (G_int d) self)) =
         (case g_getenv E ''GDK_DPI_SCALE'' of
            None \<Rightarrow> Finite (real_of_int d / 1024)
          | Some str \<Rightarrow>
              if g_ascii_strtod E str = Finite 0 then Finite (real_of_int d / 1024)
              else binary64_mul (Finite (real_of_int d / 1024)) (g_ascii_strtod E str))"
  using assms font_dpi_resolution [of PROP_FONT_DPI E d self]
  by (simp add: Let_def del: clutter_settings_set_property.simps)

lemma font_dpi_times_1024:
  assumes "0 < d" and "d \<le> 2147483647"
  shows "binary64_mul (Finite (real_of_int d / 1024)) (Finite 1024) = Finite (real_of_int d)"
proof -
  from assms(2) have "d < 2 ^ 53" by simp
  with assms(1) show ?thesis by (simp add: binary64_round_int)
qed

lemma scaled_font_dpi_times_1024:
  assumes "0 < d" and "pow2 (- 1012) \<le> \<bar>v\<bar>"
  shows "binary64_mul (binary64_mul (Finite (real_of_int d / 1024)) (Finite v)) (Finite 1024) =
         binary64_mul (Finite (real_of_int d)) (Finite v)"
proof -
  have split: "pow2 (- 1012) = pow2 (- 1022) * 1024"
    using pow2_add [of "- 1022" 10] by (simp add: pow2_numeral)
  have "1 \<le> real_of_int d" using assms(1) by simp
  then have "pow2 (- 1012) * 1 \<le> \<bar>v\<bar> * real_of_int d"
    using assms(2) pow2_pos [of "- 1012"] by (intro mult_mono) simp_all
  then have "pow2 (- 1022) \<le> \<bar>real_of_int d / 1024 * v\<bar>"
    unfolding split using assms(1) by (simp add: abs_mult field_simps)
  from binary64_round_times_1024 [OF this] show ?thesis by simp
qed

text \<open>
  Claim C10, amended. Reading font-dpi returns the C conversion to \<^verbatim>\<open>int\<close> of the derived
  resolution times 1024, not the DPI last written. After writing font-dpi = d > 0: with
  \<^verbatim>\<open>GDK_DPI_SCALE\<close> unset the read returns d; with a scale s that is not zero (and not
  below 2^-1012 in magnitude) it returns trunc(d * s), the product being the binary64
  product of d and s, when that is a 32-bit \<^verbatim>\<open>int\<close>; with a scale that converts to zero
  it returns d again. Before any DPI write it returns -1024, the resolution being
  initialised to -1.
\<close>

theorem font_dpi_read_back:
  fixes d :: int and E :: environment and self :: ClutterSettings
  defines "written \<equiv> fst (clutter_settings_set_property E PROP_FONT_DPI (G_int d) self)"
  shows "clutter_settings_get_property E PROP_FONT_DPI self =
           Inr (G_int (double_to_int E (binary64_mul (resolution self) (Finite 1024))))
       \<and> (g_getenv E ''GDK_DPI_SCALE'' = None \<and> 0 < d \<and> d \<le> 2147483647 \<longrightarrow>
            clutter_settings_get_property E PROP_FONT_DPI written = Inr (G_int d))
       \<and> (\<forall>str v p. g_getenv E ''GDK_DPI_SCALE'' = Some str \<and> g_ascii_strtod E str = Finite v
              \<and> pow2 (- 1012) \<le> \<bar>v\<bar> \<and> 0 < d
              \<and> binary64_mul (Finite (real_of_int d)) (Finite v) = Finite p
              \<and> - 2147483648 \<le> c_trunc p \<and> c_trunc p \<le> 2147483647 \<longrightarrow>
            clutter_settings_get_property E PROP_FONT_DPI written = Inr (G_int (c_trunc p)))
       \<and> (\<forall>str. g_getenv E ''GDK_DPI_SCALE'' = Some str \<and> g_ascii_strtod E str \<noteq> Finite 0
              \<and> 0 < d \<longrightarrow>
            clutter_settings_get_property E PROP_FONT_DPI written =
              Inr (G_int (double_to_int E
                (binary64_mul
                   (binary64_mul (Finite (real_of_int d / 1024)) (g_ascii_strtod E str))
                   (Finite 1024)))))
       \<and> (\<forall>str. g_getenv E ''GDK_DPI_SCALE'' = Some str \<and> g_ascii_strtod E str = Finite 0
              \<and> 0 < d \<and> d \<le> 2147483647 \<longrightarrow>
            clutter_settings_get_property E PROP_FONT_DPI written = Inr (G_int d))
       \<and> clutter_settings_get_property E PROP_FONT_DPI clutter_settings_init =
           Inr (G_int (- 1024))"
proof -
  have read: "clutter_settings_get_property E PROP_FONT_DPI s =
                Inr (G_int (double_to_int E (binary64_mul (resolution s) (Finite 1024))))" for s
    by simp
  have plain: "0 < d \<Longrightarrow> d \<le> 2147483647 \<Longrightarrow>
      double_to_int E (binary64_mul (Finite (real_of_int d / 1024)) (Finite 1024)) = d"
    by (simp only: font_dpi_times_1024) (simp add: double_to_int_of_int)
  have res: "0 < d \<Longrightarrow> resolution written =
         (case g_getenv E ''GDK_DPI_SCALE'' of
            None \<Rightarrow> Finite (real_of_int d / 1024)
          | Some str \<Rightarrow>
              if g_ascii_strtod E str = Finite 0 then Finite (real_of_int d / 1024)
              else binary64_mul (Finite (real_of_int d / 1024)) (g_ascii_strtod E str))"
    unfolding written_def by (rule resolution_after_font_dpi)
  have unscaled: "g_getenv E ''GDK_DPI_SCALE'' = None \<and> 0 < d \<and> d \<le> 2147483647 \<longrightarrow>
            clutter_settings_get_property E PROP_FONT_DPI written = Inr (G_int d)"
    unfolding read using plain res by (simp del: binary64_mul.simps)
  have scaled: "clutter_settings_get_property E PROP_FONT_DPI written = Inr (G_int (c_trunc p))"
    if "g_getenv E ''GDK_DPI_SCALE'' = Some str" and "g_ascii_strtod E str = Finite v"
      and "pow2 (- 1012) \<le> \<bar>v\<bar>" and "0 < d"
      and "binary64_mul (Finite (real_of_int d)) (Finite v) = Finite p"
      and "- 2147483648 \<le> c_trunc p" and "c_trunc p \<le> 2147483647"
    for str v p
  proof -
    from that(3) pow2_pos [of "- 1012"] have "v \<noteq> 0" by auto
    with res that(1,2,4)
    have "resolution written = binary64_mul (Finite (real_of_int d / 1024)) (Finite v)"
      by (simp del: binary64_mul.simps)
    then have "binary64_mul (resolution written) (Finite 1024) = Finite p"
      using scaled_font_dpi_times_1024 [OF that(4,3)] that(5) by (simp del: binary64_mul.simps)
    then show ?thesis
      unfolding read using that(6,7) by (simp add: double_to_int_def)
  qed
  have any: "\<forall>str. g_getenv E ''GDK_DPI_SCALE'' = Some str \<and> g_ascii_strtod E str \<noteq> Finite 0
              \<and> 0 < d \<longrightarrow>
            clutter_settings_get_property E PROP_FONT_DPI written =
              Inr (G_int (double_to_int E
                (binary64_mul
                   (binary64_mul (Finite (real_of_int d / 1024)) (g_ascii_strtod E str))
                   (Finite 1024))))"
    unfolding read using res by (simp del: binary64_mul.simps)
  have zero: "\<forall>str. g_getenv E ''GDK_DPI_SCALE'' = Some str \<and> g_ascii_strtod E str = Finite 0
              \<and> 0 < d \<and> d \<le> 2147483647 \<longrightarrow>
            clutter_settings_get_property E PROP_FONT_DPI written = Inr (G_int d)"
    unfolding read using plain res by (simp del: binary64_mul.simps)
  have "binary64_mul (Finite (- 1)) (Finite 1024) = Finite (- 1024)"
    by code_simp
  then have initial: "clutter_settings_get_property E PROP_FONT_DPI clutter_settings_init =
      Inr (G_int (- 1024))"
    unfolding read
    by (simp add: clutter_settings_init_def double_to_int_def c_trunc_def
        del: binary64_mul.simps)
  from read unscaled scaled any zero initial show ?thesis by blast
qed

theorem font_dpi_read_back_witness:
  "clutter_settings_get_property no_scale_env PROP_FONT_DPI
     (fst (clutter_settings_set_property no_scale_env PROP_FONT_DPI (G_int 98304)
        clutter_settings_init)) = Inr (G_int 98304)
   \<and> clutter_settings_get_property (scaled_env ''2.0'') PROP_FONT_DPI
     (fst (clutter_settings_set_property (scaled_env ''2.0'') PROP_FONT_DPI (G_int 98304)
        clutter_settings_init)) = Inr (G_int 196608)
   \<and> clutter_settings_get_property (scaled_env ''1.2'') PROP_FONT_DPI
     (fst (clutter_settings_set_property (scaled_env ''1.2'') PROP_FONT_DPI (G_int 122880)
        clutter_settings_init)) = Inr (G_int 147456)
   \<and> clutter_settings_get_property (scaled_env ''two'') PROP_FONT_DPI
     (fst (clutter_settings_set_property (scaled_env ''two'') PROP_FONT_DPI (G_int 98304)
        clutter_settings_init)) = Inr (G_int 98304)"
proof -
  have a: "g_getenv no_scale_env ''GDK_DPI_SCALE'' = None"
    by (simp add: no_scale_env_def)
  have b: "g_getenv (scaled_env ''2.0'') ''GDK_DPI_SCALE'' = Some ''2.0''"
    "g_ascii_strtod (scaled_env ''2.0'') ''2.0'' = Finite 2"
    by (simp_all add: scaled_env_def sample_strtod_def)
  have b': "binary64_mul (Finite (real_of_int 98304)) (Finite 2) = Finite 196608"
    by code_simp
  have c: "g_getenv (scaled_env ''1.2'') ''GDK_DPI_SCALE'' = Some ''1.2''"
    "g_ascii_strtod (scaled_env ''1.2'') ''1.2'' = Finite (5404319552844595 / 4503599627370496)"
    by (simp_all add: scaled_env_def sample_strtod_def)
  have c': "binary64_mul (Finite (real_of_int 122880))
      (Finite (5404319552844595 / 4503599627370496)) = Finite 147456"
    by code_simp
  have e: "g_getenv (scaled_env ''two'') ''GDK_DPI_SCALE'' = Some ''two''"
    "g_ascii_strtod (scaled_env ''two'') ''two'' = Finite 0"
    by (simp_all add: scaled_env_def sample_strtod_def)
  have small: "pow2 (- 1012) \<le> 1"
    using pow2_le_iff [of "- 1012" 0] by (simp add: pow2_numeral)
  have t: "c_trunc 196608 = 196608" "c_trunc 147456 = 147456"
    by (simp_all add: c_trunc_def)
  from font_dpi_read_back [where E = no_scale_env and d = 98304 and self = clutter_settings_init] a
  have first: "clutter_settings_get_property no_scale_env PROP_FONT_DPI
     (fst (clutter_settings_set_property no_scale_env PROP_FONT_DPI (G_int 98304)
        clutter_settings_init)) = Inr (G_int 98304)"
    by simp
  from font_dpi_read_back [where E = "scaled_env ''2.0''" and d = 98304
      and self = clutter_settings_init]
  have "g_getenv (scaled_env ''2.0'') ''GDK_DPI_SCALE'' = Some ''2.0''
      \<and> g_ascii_strtod (scaled_env ''2.0'') ''2.0'' = Finite 2
      \<and> pow2 (- 1012) \<le> \<bar>2\<bar> \<and> (0::int) < 98304
      \<and> binary64_mul (Finite (real_of_int 98304)) (Finite 2) = Finite 196608
      \<and> - 2147483648 \<le> c_trunc 196608 \<and> c_trunc 196608 \<le> 2147483647 \<longrightarrow>
    clutter_settings_get_property (scaled_env ''2.0'') PROP_FONT_DPI
     (fst (clutter_settings_set_property (scaled_env ''2.0'') PROP_FONT_DPI (G_int 98304)
        clutter_settings_init)) = Inr (G_int (c_trunc 196608))"
    by blast
  with b b' small t
  have second: "clutter_settings_get_property (scaled_env ''2.0'') PROP_FONT_DPI
     (fst (clutter_settings_set_property (scaled_env ''2.0'') PROP_FONT_DPI (G_int 98304)
        clutter_settings_init)) = Inr (G_int 196608)"
    by (simp del: binary64_mul.simps clutter_settings_set_property.simps
        clutter_settings_get_property.simps)
  from font_dpi_read_back [where E = "scaled_env ''1.2''" and d = 122880
      and self = clutter_settings_init]
  have "g_getenv (scaled_env ''1.2'') ''GDK_DPI_SCALE'' = Some ''1.2''
      \<and> g_ascii_strtod (scaled_env ''1.2'') ''1.2'' =
          Finite (5404319552844595 / 4503599627370496)
      \<and> pow2 (- 1012) \<le> \<bar>5404319552844595 / 4503599627370496\<bar> \<and> (0::int) < 122880
      \<and> binary64_mul (Finite (real_of_int 122880))
           (Finite (5404319552844595 / 4503599627370496)) = Finite 147456
      \<and> - 2147483648 \<le> c_trunc 147456 \<and> c_trunc 147456 \<le> 2147483647 \<longrightarrow>
    clutter_settings_get_property (scaled_env ''1.2'') PROP_FONT_DPI
     (fst (clutter_settings_set_property (scaled_env ''1.2'') PROP_FONT_DPI (G_int 122880)
        clutter_settings_init)) = Inr (G_int (c_trunc 147456))"
    by blast
  with c c' small t
  have third: "clutter_settings_get_property (scaled_env ''1.2'') PROP_FONT_DPI
     (fst (clutter_settings_set_property (scaled_env ''1.2'') PROP_FONT_DPI (G_int 122880)
        clutter_settings_init)) = Inr (G_int 147456)"
    by (simp del: binary64_mul.simps clutter_settings_set_property.simps
        clutter_settings_get_property.simps)
  from font_dpi_read_back [where E = "scaled_env ''two''" and d = 98304
      and self = clutter_settings_init] e
  have fourth: "clutter_settings_get_property (scaled_env ''two'') PROP_FONT_DPI
     (fst (clutter_settings_set_property (scaled_env ''two'') PROP_FONT_DPI (G_int 98304)
        clutter_settings_init)) = Inr (G_int 98304)"
    by simp
  from first second third fourth show ?thesis by blast
qed

text \<open>
  The claim as first stated, "with a scale override s the read returns trunc(d * s)", fails
  for the override "0": the guard \<^verbatim>\<open>scale != 0\<close> skips the multiplication, so the read
  returns d = 98304 and not trunc(98304 * 0) = 0.
\<close>

theorem font_dpi_read_back_zero_scale:
  "g_getenv (scaled_env ''0'') ''GDK_DPI_SCALE'' = Some ''0''
   \<and> g_ascii_strtod (scaled_env ''0'') ''0'' = Finite 0
   \<and> binary64_mul (Finite 98304) (g_ascii_strtod (scaled_env ''0'') ''0'') = Finite 0
   \<and> c_trunc 0 = 0
   \<and> clutter_settings_get_property (scaled_env ''0'') PROP_FONT_DPI
       (fst (clutter_settings_set_property (scaled_env ''0'') PROP_FONT_DPI (G_int 98304)
          clutter_settings_init)) = Inr (G_int 98304)"
proof -
  have env: "g_getenv (scaled_env ''0'') ''GDK_DPI_SCALE'' = Some ''0''"
    "g_ascii_strtod (scaled_env ''0'') ''0'' = Finite 0"
    by (simp_all add: scaled_env_def sample_strtod_def)
  have product: "binary64_mul (Finite 98304) (Finite 0) = Finite 0"
    by code_simp
  have "resolution (fst (clutter_settings_set_property (scaled_env ''0'') PROP_FONT_DPI
      (G_int 98304) clutter_settings_init)) = Finite (real_of_int 98304 / 1024)"
    using resolution_after_font_dpi [of 98304 "scaled_env ''0''" clutter_settings_init] env
    by (simp del: clutter_settings_set_property.simps)
  moreover have "double_to_int (scaled_env ''0'')
      (binary64_mul (Finite (real_of_int 98304 / 1024)) (Finite 1024)) = 98304"
    using font_dpi_times_1024 [of 98304] double_to_int_of_int [of 98304 "scaled_env ''0''"]
    by (simp del: binary64_mul.simps)
  ultimately have "clutter_settings_get_property (scaled_env ''0'') PROP_FONT_DPI
       (fst (clutter_settings_set_property (scaled_env ''0'') PROP_FONT_DPI (G_int 98304)
          clutter_settings_init)) = Inr (G_int 98304)"
    by (simp del: clutter_settings_set_property.simps binary64_mul.simps)
  with env product show ?thesis by (simp add: c_trunc_def)
qed

section \<open>The font-options bundle\<close>

lemma hint_style_of_name_chain:
  "hint_style_of_name (Some n) =
     (if n = ''hintnone'' then CAIRO_HINT_STYLE_NONE
      else if n = ''hintslight'' then CAIRO_HINT_STYLE_SLIGHT
      else if n = ''hintmedium'' then CAIRO_HINT_STYLE_MEDIUM
      else if n = ''hintfull'' then CAIRO_HINT_STYLE_FULL
      else CAIRO_HINT_STYLE_NONE)"
  "hint_style_of_name None = CAIRO_HINT_STYLE_NONE"
  by (auto simp: hint_style_of_name_def hintings_def)

lemma subpixel_order_of_name_chain:
  "subpixel_order_of_name (Some n) =
     (if n = ''rgb'' then CAIRO_SUBPIXEL_ORDER_RGB
      else if n = ''bgr'' then CAIRO_SUBPIXEL_ORDER_BGR
      else if n = ''vrgb'' then CAIRO_SUBPIXEL_ORDER_VRGB
      else if n = ''vbgr'' then CAIRO_SUBPIXEL_ORDER_VBGR
      else CAIRO_SUBPIXEL_ORDER_DEFAULT)"
  "subpixel_order_of_name None = CAIRO_SUBPIXEL_ORDER_DEFAULT"
  by (auto simp: subpixel_order_of_name_def rgba_orders_def)

lemma settings_update_font_options_rule:
  "settings_update_font_options self =
     (case backend self of
        None \<Rightarrow> []
      | Some b \<Rightarrow>
          [Clutter_backend_set_font_options
             \<lparr>hint_metrics = CAIRO_HINT_METRICS_ON,
              hint_style =
                (if 0 \<le> xft_hinting self \<and> xft_hint_style self = None then CAIRO_HINT_STYLE_NONE
                 else hint_style_of_name (xft_hint_style self)),
              antialias =
                (if xft_antialias self = 0 then CAIRO_ANTIALIAS_NONE
                 else if subpixel_order_of_name (xft_rgba self) \<noteq> CAIRO_SUBPIXEL_ORDER_DEFAULT
                 then CAIRO_ANTIALIAS_SUBPIXEL
                 else if 0 \<le> xft_antialias self then CAIRO_ANTIALIAS_GRAY
                 else CAIRO_ANTIALIAS_GRAY),
              subpixel_order = subpixel_order_of_name (xft_rgba self)\<rparr>])"
proof (cases "backend self")
  case None
  then show ?thesis by (simp add: settings_update_font_options_def)
next
  case (Some b)
  have hs: "(if xft_hinting self \<ge> 0 \<and> xft_hint_style self = None
                  then CAIRO_HINT_STYLE_NONE
                  else (case xft_hint_style self of
                          None \<Rightarrow> CAIRO_HINT_STYLE_NONE
                        | Some n \<Rightarrow>
                            if n = ''hintnone'' then CAIRO_HINT_STYLE_NONE
                            else if n = ''hintslight'' then CAIRO_HINT_STYLE_SLIGHT
                            else if n = ''hintmedium'' then CAIRO_HINT_STYLE_MEDIUM
                            else if n = ''hintfull'' then CAIRO_HINT_STYLE_FULL
                            else CAIRO_HINT_STYLE_NONE)) =
            (if 0 \<le> xft_hinting self \<and> xft_hint_style self = None then CAIRO_HINT_STYLE_NONE
                 else hint_style_of_name (xft_hint_style self))"
    by (cases "xft_hint_style self") (simp_all only: hint_style_of_name_chain option.case)
  have so: "(case xft_rgba self of
                    None \<Rightarrow> CAIRO_SUBPIXEL_ORDER_DEFAULT
                  | Some n \<Rightarrow>
                      if n = ''rgb'' then CAIRO_SUBPIXEL_ORDER_RGB
                      else if n = ''bgr'' then CAIRO_SUBPIXEL_ORDER_BGR
                      else if n = ''vrgb'' then CAIRO_SUBPIXEL_ORDER_VRGB
                      else if n = ''vbgr'' then CAIRO_SUBPIXEL_ORDER_VBGR
                      else CAIRO_SUBPIXEL_ORDER_DEFAULT) = subpixel_order_of_name (xft_rgba self)"
    by (cases "xft_rgba self") (simp_all only: subpixel_order_of_name_chain option.case)
  show ?thesis
    unfolding settings_update_font_options_def Let_def hs so
    by (simp add: Some cairo_font_options_create_def)
qed


text \<open>
  Claim C3, amended. For every state of the store, writing antialias, hinting, hint-style
  or subpixel-order stores the value and, when a backend is attached, hands it the
  recomputed font-options bundle (without a backend nothing is handed over): hint metrics
  on; hint style none when hinting >= 0 and no hint-style string is set, else the cairo
  style mapped from the hint-style string; sub-pixel order the one the string names;
  antialias mode none when antialias is 0, else sub-pixel when the sub-pixel order is not
  the default, else grayscale, whether antialias >= 0 or left to the toolkit default.
  Writing the DPI emits "resolution-changed" only: it recomputes no font-options bundle.
\<close>

theorem font_options_recomputed:
  fixes E :: environment and p :: prop_id and v :: GValue and self :: ClutterSettings
  assumes "p \<in> {PROP_FONT_ANTIALIAS, PROP_FONT_HINTING, PROP_FONT_HINT_STYLE, PROP_FONT_RGBA}"
  defines "written \<equiv> fst (clutter_settings_set_property E p v self)"
  shows "snd (clutter_settings_set_property E p v self) =
           (case backend self of
              None \<Rightarrow> []
            | Some b \<Rightarrow>
                [Clutter_backend_set_font_options
                   \<lparr>hint_metrics = CAIRO_HINT_METRICS_ON,
                    hint_style =
                      (if 0 \<le> xft_hinting written \<and> xft_hint_style written = None
                       then CAIRO_HINT_STYLE_NONE
                       else hint_style_of_name (xft_hint_style written)),
                    antialias =
                      (if xft_antialias written = 0 then CAIRO_ANTIALIAS_NONE
                       else if subpixel_order_of_name (xft_rgba written) \<noteq>
                               CAIRO_SUBPIXEL_ORDER_DEFAULT
                       then CAIRO_ANTIALIAS_SUBPIXEL
                       else if 0 \<le> xft_antialias written then CAIRO_ANTIALIAS_GRAY
                       else CAIRO_ANTIALIAS_GRAY),
                    subpixel_order = subpixel_order_of_name (xft_rgba written)\<rparr>])
       \<and> written =
           (if p = PROP_FONT_ANTIALIAS then self\<lparr>xft_antialias := g_value_get_int v\<rparr>
            else if p = PROP_FONT_HINTING then self\<lparr>xft_hinting := g_value_get_int v\<rparr>
            else if p = PROP_FONT_HINT_STYLE then self\<lparr>xft_hint_style := g_value_dup_string v\<rparr>
            else self\<lparr>xft_rgba := g_value_dup_string v\<rparr>)
       \<and> snd (clutter_settings_set_property E PROP_FONT_DPI v self) =
           (case backend self of
              None \<Rightarrow> []
            | Some b \<Rightarrow> [G_signal_emit_by_name ''resolution-changed''])"
proof -
  have pair: "clutter_settings_set_property E p v self = (written, settings_update_font_options written)"
    using assms(1) unfolding written_def by (auto simp: Let_def)
  have bk: "backend written = backend self"
    using assms(1) unfolding written_def by (auto simp: Let_def)
  have events: "snd (clutter_settings_set_property E p v self) = settings_update_font_options written"
    by (simp add: pair)
  have state: "written =
           (if p = PROP_FONT_ANTIALIAS then self\<lparr>xft_antialias := g_value_get_int v\<rparr>
            else if p = PROP_FONT_HINTING then self\<lparr>xft_hinting := g_value_get_int v\<rparr>
            else if p = PROP_FONT_HINT_STYLE then self\<lparr>xft_hint_style := g_value_dup_string v\<rparr>
            else self\<lparr>xft_rgba := g_value_dup_string v\<rparr>)"
    using assms(1) unfolding written_def by (auto simp: Let_def)
  have dpi: "snd (clutter_settings_set_property E PROP_FONT_DPI v self) =
           (case backend self of
              None \<Rightarrow> []
            | Some b \<Rightarrow> [G_signal_emit_by_name ''resolution-changed''])"
    by (simp add: settings_update_resolution_def Let_def split: option.splits)
  show ?thesis
    unfolding events settings_update_font_options_rule [of written] bk
    using state dpi by blast
qed

theorem font_options_recomputed_witness:
  "snd (clutter_settings_set_property no_scale_env PROP_FONT_RGBA (G_string (Some ''bgr''))
     attached_settings) =
     [Clutter_backend_set_font_options
        \<lparr>hint_metrics = CAIRO_HINT_METRICS_ON, hint_style = CAIRO_HINT_STYLE_NONE,
         antialias = CAIRO_ANTIALIAS_SUBPIXEL, subpixel_order = CAIRO_SUBPIXEL_ORDER_BGR\<rparr>]
   \<and> snd (clutter_settings_set_property no_scale_env PROP_FONT_HINT_STYLE
       (G_string (Some ''hintfull'')) attached_settings) =
     [Clutter_backend_set_font_options
        \<lparr>hint_metrics = CAIRO_HINT_METRICS_ON, hint_style = CAIRO_HINT_STYLE_FULL,
         antialias = CAIRO_ANTIALIAS_GRAY, subpixel_order = CAIRO_SUBPIXEL_ORDER_DEFAULT\<rparr>]
   \<and> snd (clutter_settings_set_property no_scale_env PROP_FONT_ANTIALIAS (G_int 0)
       clutter_settings_init) = []"
proof -
  have m: "PROP_FONT_RGBA \<in> {PROP_FONT_ANTIALIAS, PROP_FONT_HINTING, PROP_FONT_HINT_STYLE, PROP_FONT_RGBA}"
    "PROP_FONT_HINT_STYLE \<in> {PROP_FONT_ANTIALIAS, PROP_FONT_HINTING, PROP_FONT_HINT_STYLE, PROP_FONT_RGBA}"
    "PROP_FONT_ANTIALIAS \<in> {PROP_FONT_ANTIALIAS, PROP_FONT_HINTING, PROP_FONT_HINT_STYLE, PROP_FONT_RGBA}"
    by simp_all
  show ?thesis
    using font_options_recomputed [OF m(1), of no_scale_env "G_string (Some ''bgr'')" attached_settings]
      font_options_recomputed [OF m(2), of no_scale_env "G_string (Some ''hintfull'')" attached_settings]
      font_options_recomputed [OF m(3), of no_scale_env "G_int 0" clutter_settings_init]
    by (simp add: attached_settings_def clutter_settings_init_def g_value_dup_string_def
        g_value_get_int_def hint_style_of_name_chain subpixel_order_of_name_chain)
qed

text \<open>
  The claim as first stated lists the DPI among the writes that recompute the bundle. With
  a backend attached, writing font-dpi = 98304 hands no font options to the backend.
\<close>

theorem font_dpi_write_no_font_options:
  "snd (clutter_settings_set_property no_scale_env PROP_FONT_DPI (G_int 98304) attached_settings) =
     [G_signal_emit_by_name ''resolution-changed'']
   \<and> filter is_font_options_event
       (snd (clutter_settings_set_property no_scale_env PROP_FONT_DPI (G_int 98304)
          attached_settings)) = []"
  by (simp add: settings_update_resolution_def Let_def attached_settings_def
      clutter_settings_init_def no_scale_env_def g_value_get_int_def)

section \<open>What a write leaves alone, and the font name\<close>

lemma set_property_font_name:
  "font_name (fst (clutter_settings_set_property E p v self)) =
     (if p = PROP_FONT_NAME then g_value_dup_string v else font_name self)"
  by (cases p) (simp_all add: settings_update_resolution_def Let_def split: option.splits)

lemma set_property_backend:
  "backend (fst (clutter_settings_set_property E p v self)) = backend self"
  by (cases p) (simp_all add: settings_update_resolution_def Let_def split: option.splits)

lemma fst_set_properties_Cons:
  "fst (set_properties E (w # ws) self) =
     fst (set_properties E ws (fst (clutter_settings_set_property E (fst w) (snd w) self)))"
  by (simp add: Let_def split: prod.splits)

lemma snd_set_properties_Cons:
  "snd (set_properties E (w # ws) self) =
     snd (clutter_settings_set_property E (fst w) (snd w) self) @
     snd (set_properties E ws (fst (clutter_settings_set_property E (fst w) (snd w) self)))"
  by (simp add: Let_def split: prod.splits)

lemma set_properties_backend:
  "backend (fst (set_properties E ws self)) = backend self"
proof (induction ws arbitrary: self)
  case Nil
  show ?case by simp
next
  case (Cons w ws)
  show ?case
    unfolding fst_set_properties_Cons by (simp add: Cons.IH set_property_backend)
qed

lemma set_properties_font_name_kept:
  "PROP_FONT_NAME \<notin> fst ` set ws \<Longrightarrow> font_name (fst (set_properties E ws self)) = font_name self"
proof (induction ws arbitrary: self)
  case Nil
  show ?case by simp
next
  case (Cons w ws)
  from Cons.prems have "fst w \<noteq> PROP_FONT_NAME" and "PROP_FONT_NAME \<notin> fst ` set ws"
    by auto
  then show ?case
    unfolding fst_set_properties_Cons by (simp add: Cons.IH set_property_font_name)
qed

lemma set_properties_font_name_nonempty:
  assumes "list_all (\<lambda>w. fst w \<noteq> PROP_FONT_NAME \<or> nonempty_name (g_value_dup_string (snd w))) ws"
    and "nonempty_name (font_name self)"
  shows "nonempty_name (font_name (fst (set_properties E ws self)))"
  using assms
proof (induction ws arbitrary: self)
  case Nil
  then show ?case by simp
next
  case (Cons w ws)
  let ?s = "fst (clutter_settings_set_property E (fst w) (snd w) self)"
  from Cons.prems have "nonempty_name (font_name ?s)"
    by (auto simp: set_property_font_name)
  moreover from Cons.prems
  have "list_all (\<lambda>w. fst w \<noteq> PROP_FONT_NAME \<or> nonempty_name (g_value_dup_string (snd w))) ws"
    by simp
  ultimately show ?case
    unfolding fst_set_properties_Cons by (rule Cons.IH [rotated])
qed

lemma fst_g_object_set:
  "fst (g_object_set nqueue E ws self) = fst (set_properties E ws self)"
  by (simp add: g_object_set_def Let_def split: prod.splits)

lemma sync_mouse_options_font_name:
  "font_name (fst (sync_mouse_options nqueue E self)) = font_name self"
  by (simp add: sync_mouse_options_def Let_def fst_g_object_set set_properties_font_name_kept)

lemma on_font_settings_change_event_font_name:
  "font_name (fst (on_font_settings_change_event nqueue E settings self)) = font_name self"
  by (simp add: on_font_settings_change_event_def Let_def fst_g_object_set
      set_properties_font_name_kept)

lemma load_initial_settings_font_name:
  "font_name (fst (load_initial_settings nqueue E source self)) = font_name self"
  by (simp add: load_initial_settings_def Let_def case_prod_beta sync_mouse_options_font_name
      split: option.splits)

lemma step_font_name_nonempty:
  assumes "font_name_writes_nonempty a" and "nonempty_name (font_name self)"
  shows "nonempty_name (font_name (fst (step nqueue E a self)))"
proof (cases a)
  case (Object_set ws)
  with assms show ?thesis
    by (simp add: fst_g_object_set set_properties_font_name_nonempty)
next
  case (Set_backend source b)
  with assms show ?thesis
    by (simp add: clutter_settings_set_backend_def load_initial_settings_font_name)
next
  case Font_settings_change_event
  with assms show ?thesis
    by (simp add: on_font_settings_change_event_font_name split: option.splits)
next
  case Mouse_settings_change_event
  with assms show ?thesis
    by (simp add: on_mouse_settings_change_event_def sync_mouse_options_font_name
        split: option.splits)
qed

lemma fst_run_Cons:
  "fst (run nqueue E (a # as) self) = fst (run nqueue E as (fst (step nqueue E a self)))"
  by (simp add: Let_def case_prod_beta)

lemma run_font_name_nonempty:
  assumes "list_all font_name_writes_nonempty as" and "nonempty_name (font_name self)"
  shows "nonempty_name (font_name (fst (run nqueue E as self)))"
  using assms
proof (induction as arbitrary: self)
  case Nil
  then show ?case by simp
next
  case (Cons a as)
  from Cons.prems have "nonempty_name (font_name (fst (step nqueue E a self)))"
    by (simp add: step_font_name_nonempty)
  moreover from Cons.prems have "list_all font_name_writes_nonempty as" by simp
  ultimately show ?case
    unfolding fst_run_Cons by (rule Cons.IH [rotated])
qed

text \<open>
  Claim C8, amended. The font name is initialised to the compiled-in default "Sans 12", and
  it is a non-empty string in every state reached from there by writes, backend attachment
  and store change events, provided each write to font-name carries a non-empty string. A
  write to font-name stores the string it is given as it is, empty or \<^verbatim>\<open>NULL\<close> included:
  the store has no fallback of its own.
\<close>

theorem font_name_nonempty_invariant:
  "font_name clutter_settings_init = Some ''Sans 12''
   \<and> (list_all font_name_writes_nonempty as \<longrightarrow>
        nonempty_name (font_name (fst (run nqueue E as clutter_settings_init))))
   \<and> font_name (fst (clutter_settings_set_property E PROP_FONT_NAME v self)) = g_value_dup_string v"
proof -
  have init: "font_name clutter_settings_init = Some ''Sans 12''"
    by (simp add: clutter_settings_init_def DEFAULT_FONT_NAME_def)
  then have "nonempty_name (font_name clutter_settings_init)"
    by (simp add: nonempty_name_def)
  then have "list_all font_name_writes_nonempty as \<Longrightarrow>
        nonempty_name (font_name (fst (run nqueue E as clutter_settings_init)))"
    by (rule run_font_name_nonempty [rotated])
  moreover have "font_name (fst (clutter_settings_set_property E PROP_FONT_NAME v self)) =
      g_value_dup_string v"
    by (simp only: set_property_font_name refl if_True)
  ultimately show ?thesis using init by blast
qed

theorem font_name_nonempty_invariant_witness:
  "list_all font_name_writes_nonempty
     [Set_backend sample_schemas ClutterBackend,
      Object_set [(PROP_FONT_NAME, G_string (Some ''Serif 10'')), (PROP_FONT_DPI, G_int 98304)],
      Font_settings_change_event]
   \<and> nonempty_name (font_name (fst (run fifo_queue no_scale_env
       [Set_backend sample_schemas ClutterBackend,
        Object_set [(PROP_FONT_NAME, G_string (Some ''Serif 10'')), (PROP_FONT_DPI, G_int 98304)],
        Font_settings_change_event] clutter_settings_init)))"
proof -
  have ok: "list_all font_name_writes_nonempty
     [Set_backend sample_schemas ClutterBackend,
      Object_set [(PROP_FONT_NAME, G_string (Some ''Serif 10'')), (PROP_FONT_DPI, G_int 98304)],
      Font_settings_change_event]"
    by (simp add: nonempty_name_def g_value_dup_string_def)
  with font_name_nonempty_invariant [of
     "[Set_backend sample_schemas ClutterBackend,
      Object_set [(PROP_FONT_NAME, G_string (Some ''Serif 10'')), (PROP_FONT_DPI, G_int 98304)],
      Font_settings_change_event]" fifo_queue no_scale_env]
  show ?thesis by blast
qed

text \<open>
  The claim as first stated fails after a write of the empty string, or of \<^verbatim>\<open>NULL\<close>: the
  store then holds, and reads back, the empty name, not "Sans 12".
\<close>

theorem font_name_empty_after_write:
  "font_name (fst (clutter_settings_set_property no_scale_env PROP_FONT_NAME (G_string (Some []))
      clutter_settings_init)) = Some []
   \<and> clutter_settings_get_property no_scale_env PROP_FONT_NAME
       (fst (clutter_settings_set_property no_scale_env PROP_FONT_NAME (G_string (Some []))
          clutter_settings_init)) = Inr (G_string (Some []))
   \<and> font_name (fst (clutter_settings_set_property no_scale_env PROP_FONT_NAME (G_string None)
      clutter_settings_init)) = None"
  by (simp add: Let_def g_value_dup_string_def)

section \<open>One aggregate signal per batch\<close>

lemma set_property_field_notification:
  assumes "backend self = Some b"
  shows "map notification_name
           (filter seen_by_backend (snd (clutter_settings_set_property E p v self))) =
         field_notification p"
  using assms
  by (cases p)
    (simp_all add: settings_update_resolution_def settings_update_font_options_def
      settings_update_font_name_def Let_def split: option.splits)

lemma set_property_no_settings_changed:
  "G_signal_emit_by_name ''settings-changed'' \<notin>
     set (snd (clutter_settings_set_property E p v self))"
  by (cases p)
    (simp_all add: settings_update_resolution_def settings_update_font_options_def
      settings_update_font_name_def Let_def split: option.splits)

lemma set_properties_field_notifications:
  assumes "backend self = Some b"
  shows "map notification_name (filter seen_by_backend (snd (set_properties E ws self))) =
         concat (map (\<lambda>w. field_notification (fst w)) ws)"
  using assms
proof (induction ws arbitrary: self)
  case Nil
  show ?case by simp
next
  case (Cons w ws)
  let ?s = "fst (clutter_settings_set_property E (fst w) (snd w) self)"
  have "backend ?s = Some b"
    by (simp add: set_property_backend Cons.prems)
  then have "map notification_name (filter seen_by_backend (snd (set_properties E ws ?s))) =
         concat (map (\<lambda>w. field_notification (fst w)) ws)"
    by (rule Cons.IH)
  then show ?case
    unfolding snd_set_properties_Cons
    by (simp add: set_property_field_notification [OF Cons.prems])
qed

lemma set_properties_no_settings_changed:
  "G_signal_emit_by_name ''settings-changed'' \<notin> set (snd (set_properties E ws self))"
proof (induction ws arbitrary: self)
  case Nil
  show ?case by simp
next
  case (Cons w ws)
  show ?case
    unfolding snd_set_properties_Cons
    using set_property_no_settings_changed Cons.IH by simp
qed

lemma set_property_no_notify:
  "filter is_notify (snd (clutter_settings_set_property E p v self)) = []"
  by (cases p)
    (simp_all add: settings_update_resolution_def settings_update_font_options_def
      settings_update_font_name_def Let_def split: option.splits)

lemma set_properties_no_notify:
  "filter is_notify (snd (set_properties E ws self)) = []"
proof (induction ws arbitrary: self)
  case Nil
  show ?case by simp
next
  case (Cons w ws)
  show ?case
    unfolding snd_set_properties_Cons
    by (simp add: set_property_no_notify Cons.IH)
qed

lemma snd_g_object_set:
  assumes "backend self = Some b"
  shows "snd (g_object_set nqueue E ws self) =
           snd (set_properties E ws self) @
           (if filter g_param_readable (map fst ws) = [] then []
            else map Notify (nqueue (filter g_param_readable (map fst ws))) @
                 [G_signal_emit_by_name ''settings-changed''])"
proof -
  have "backend (fst (set_properties E ws self)) = Some b"
    by (simp add: set_properties_backend assms)
  then show ?thesis
    by (simp add: g_object_set_def Let_def case_prod_beta
        clutter_settings_dispatch_properties_changed_def g_object_dispatch_properties_changed_def)
qed

lemma count_list_absent: "x \<notin> set xs \<Longrightarrow> count_list xs x = 0"
  by (induction xs) auto

lemma length_concat_singletons:
  "\<forall>x \<in> set xs. length (f x) = 1 \<Longrightarrow> length (concat (map f xs)) = length xs"
  by (induction xs) auto

lemma field_notification_length:
  "field_notification p \<noteq> [] \<Longrightarrow> length (field_notification p) = 1"
  by (cases p) simp_all

lemma filter_is_notify_map_Notify: "filter is_notify (map Notify ps) = map Notify ps"
  by (induction ps) simp_all

lemma filter_seen_by_backend_map_Notify: "filter seen_by_backend (map Notify ps) = []"
  by (induction ps) simp_all

text \<open>
  Claim C1, amended. For a batch of N property writes applied in one \<^verbatim>\<open>g_object_set\<close> with
  a backend attached, what is emitted is: the writes' own backend notifications, in write
  order; then, when the batch wrote at least one readable property, the \<^verbatim>\<open>::notify\<close>
  emissions on the settings object, one per entry of GObject's queue of the readable
  properties written and in the order of that queue, and after them "settings-changed" on
  the backend, exactly once and never once per field. The backend notification of a write
  is "font-changed" for font-name, "resolution-changed" for font-dpi and unscaled-font-dpi,
  the font options for the four rendering attributes, and nothing for the timing
  properties: the backend sees N field-level notifications before the aggregate one only
  when every written property has one. A batch that writes no readable property (the
  write-only unscaled-font-dpi) queues nothing, and no "settings-changed" follows it.
\<close>

theorem settings_changed_once_per_batch:
  fixes nqueue :: "prop_id list \<Rightarrow> prop_id list" and E :: environment
    and ws :: "(prop_id \<times> GValue) list" and self :: ClutterSettings
  assumes "backend self = Some b"
  defines "trace \<equiv> snd (g_object_set nqueue E ws self)"
    and "writes \<equiv> snd (set_properties E ws self)"
    and "queued \<equiv> filter g_param_readable (map fst ws)"
  shows "trace = writes @
           (if queued = [] then []
            else map Notify (nqueue queued) @ [G_signal_emit_by_name ''settings-changed''])
       \<and> map notification_name (filter seen_by_backend writes) =
           concat (map (\<lambda>w. field_notification (fst w)) ws)
       \<and> filter seen_by_backend trace =
           filter seen_by_backend writes @
           (if queued = [] then [] else [G_signal_emit_by_name ''settings-changed''])
       \<and> map notification_name (filter seen_by_backend trace) =
           concat (map (\<lambda>w. field_notification (fst w)) ws) @
           (if queued = [] then [] else [''settings-changed''])
       \<and> count_list trace (G_signal_emit_by_name ''settings-changed'') =
           (if queued = [] then 0 else 1)
       \<and> (ws \<noteq> [] \<and> (\<forall>w \<in> set ws. g_param_readable (fst w)) \<longrightarrow>
            count_list trace (G_signal_emit_by_name ''settings-changed'') = 1)
       \<and> ((\<forall>w \<in> set ws. field_notification (fst w) \<noteq> []) \<longrightarrow>
            length (filter seen_by_backend writes) = length ws)
       \<and> filter is_notify trace = (if queued = [] then [] else map Notify (nqueue queued))
       \<and> (nqueue queued = queued \<longrightarrow> filter is_notify trace = map Notify queued)"
proof -
  have shape: "trace = writes @
           (if queued = [] then []
            else map Notify (nqueue queued) @ [G_signal_emit_by_name ''settings-changed''])"
    unfolding trace_def writes_def queued_def using assms(1) by (rule snd_g_object_set)
  have names: "map notification_name (filter seen_by_backend writes) =
           concat (map (\<lambda>w. field_notification (fst w)) ws)"
    unfolding writes_def using assms(1) by (rule set_properties_field_notifications)
  have seen: "filter seen_by_backend trace =
           filter seen_by_backend writes @
           (if queued = [] then [] else [G_signal_emit_by_name ''settings-changed''])"
    unfolding shape by (simp add: filter_seen_by_backend_map_Notify)
  have seen_names: "map notification_name (filter seen_by_backend trace) =
           concat (map (\<lambda>w. field_notification (fst w)) ws) @
           (if queued = [] then [] else [''settings-changed''])"
    unfolding seen using names by simp
  have "G_signal_emit_by_name ''settings-changed'' \<notin> set writes"
    unfolding writes_def by (rule set_properties_no_settings_changed)
  moreover have "G_signal_emit_by_name ''settings-changed'' \<notin> set (map Notify ps)" for ps
    by auto
  ultimately have once: "count_list trace (G_signal_emit_by_name ''settings-changed'') =
           (if queued = [] then 0 else 1)"
    unfolding shape by (simp add: count_list_absent)
  have readable: "count_list trace (G_signal_emit_by_name ''settings-changed'') = 1"
    if "ws \<noteq> []" and "\<forall>w \<in> set ws. g_param_readable (fst w)"
  proof -
    from that have "queued \<noteq> []"
      unfolding queued_def by (cases ws) simp_all
    with once show ?thesis by simp
  qed
  have count: "length (filter seen_by_backend writes) = length ws"
    if all: "\<forall>w \<in> set ws. field_notification (fst w) \<noteq> []"
  proof -
    from all have "\<forall>w \<in> set ws. length (field_notification (fst w)) = 1"
      by (simp add: field_notification_length)
    then have "length (concat (map (\<lambda>w. field_notification (fst w)) ws)) = length ws"
      by (rule length_concat_singletons)
    with names show ?thesis
      by (metis length_map)
  qed
  have "filter is_notify writes = []"
    unfolding writes_def by (rule set_properties_no_notify)
  then have notified: "filter is_notify trace =
      (if queued = [] then [] else map Notify (nqueue queued))"
    unfolding shape by (simp add: filter_is_notify_map_Notify)
  then have ordered: "filter is_notify trace = map Notify queued"
    if "nqueue queued = queued"
    using that by (cases "queued = []") simp_all
  from shape names seen seen_names once readable count notified ordered show ?thesis
    by blast
qed

theorem settings_changed_once_per_batch_witness:
  "backend loaded_settings = Some ClutterBackend
   \<and> filter is_notify
         (snd (on_font_settings_change_event fifo_queue no_scale_env (Some (font_store 1 2 1))
            loaded_settings)) =
       [Notify PROP_FONT_HINTING, Notify PROP_FONT_HINT_STYLE, Notify PROP_FONT_ANTIALIAS,
        Notify PROP_FONT_RGBA]
   \<and> map notification_name (filter seen_by_backend
         (snd (on_font_settings_change_event fifo_queue no_scale_env (Some (font_store 1 2 1))
            loaded_settings))) =
       [''set-font-options'', ''set-font-options'', ''set-font-options'', ''set-font-options'',
        ''settings-changed'']
   \<and> length (filter seen_by_backend
         (snd (set_properties no_scale_env
            [(PROP_FONT_HINTING, G_int 1),
             (PROP_FONT_HINT_STYLE, G_string (Some ''hintslight'')),
             (PROP_FONT_ANTIALIAS, G_int 1),
             (PROP_FONT_RGBA, G_string (Some ''rgb''))] loaded_settings))) = 4
   \<and> count_list
         (snd (on_font_settings_change_event fifo_queue no_scale_env (Some (font_store 1 2 1))
            loaded_settings))
         (G_signal_emit_by_name ''settings-changed'') = 1"
proof -
  let ?font = "[(PROP_FONT_HINTING, G_int 1),
                (PROP_FONT_HINT_STYLE, G_string (Some ''hintslight'')),
                (PROP_FONT_ANTIALIAS, G_int 1),
                (PROP_FONT_RGBA, G_string (Some ''rgb''))]"
  have fs: "get_font_gsettings (Some (font_store 1 2 1)) =
      \<lparr>cairo_antialias = CAIRO_ANTIALIAS_SUBPIXEL, clutter_font_antialias = 1,
       cairo_hint_style = CAIRO_HINT_STYLE_SLIGHT, clutter_font_hint_style = Some ''hintslight'',
       cairo_subpixel_order = CAIRO_SUBPIXEL_ORDER_RGB,
       clutter_font_subpixel_order = Some ''rgb''\<rparr>"
    by (simp add: get_font_gsettings_def g_settings_get_enum_def font_store_def hintings_def
        antialiasings_def rgba_orders_def)
  have font: "on_font_settings_change_event fifo_queue no_scale_env (Some (font_store 1 2 1))
                loaded_settings = g_object_set fifo_queue no_scale_env ?font loaded_settings"
    by (simp add: on_font_settings_change_event_def fs)
  have attached: "backend loaded_settings = Some ClutterBackend"
    by (simp add: loaded_settings_def attached_settings_def)
  have queued: "filter g_param_readable (map fst ?font) = map fst ?font"
    by simp
  have queue: "fifo_queue (map fst ?font) = map fst ?font"
    by (simp add: fifo_queue_def g_object_notify_queue_add_def)
  have own: "\<forall>w \<in> set ?font. field_notification (fst w) \<noteq> []"
    by simp
  note font_batch = settings_changed_once_per_batch
    [where nqueue = fifo_queue and ws = "?font" and E = no_scale_env, OF attached,
     unfolded queued]
  note rest = conjunct2
  from font_batch [THEN rest, THEN rest, THEN rest, THEN rest, THEN rest, THEN rest,
      THEN conjunct1] own
  have four: "length (filter seen_by_backend (snd (set_properties no_scale_env ?font
      loaded_settings))) = 4"
    by (simp del: set_properties.simps)
  from font_batch [THEN rest, THEN rest, THEN rest, THEN conjunct1]
  have font_names: "map notification_name (filter seen_by_backend
         (snd (g_object_set fifo_queue no_scale_env ?font loaded_settings))) =
       [''set-font-options'', ''set-font-options'', ''set-font-options'', ''set-font-options'',
        ''settings-changed'']"
    by (simp del: set_properties.simps)
  from font_batch [THEN rest, THEN rest, THEN rest, THEN rest, THEN conjunct1]
  have once: "count_list (snd (g_object_set fifo_queue no_scale_env ?font loaded_settings))
      (G_signal_emit_by_name ''settings-changed'') = 1"
    by (simp del: set_properties.simps)
  from font_batch [THEN rest, THEN rest, THEN rest, THEN rest, THEN rest, THEN rest,
      THEN rest, THEN rest] queue
  have notifies: "filter is_notify
      (snd (g_object_set fifo_queue no_scale_env ?font loaded_settings)) =
      [Notify PROP_FONT_HINTING, Notify PROP_FONT_HINT_STYLE, Notify PROP_FONT_ANTIALIAS,
       Notify PROP_FONT_RGBA]"
    by (simp del: set_properties.simps)
  from attached notifies font_names four once show ?thesis
    unfolding font by blast
qed

text \<open>
  The claim as first stated fails on two batches. The mouse watcher's batch writes N = 2
  timing properties, and the backend sees no field-level notification, only the aggregate
  signal. A batch that writes the write-only unscaled-font-dpi shows the backend
  "resolution-changed" and no "settings-changed" at all: GObject queues no notification
  for a property that is not readable, so nothing is dispatched.
\<close>

theorem batch_without_field_or_aggregate_signal:
  "sync_mouse_options fifo_queue no_scale_env loaded_settings =
     g_object_set fifo_queue no_scale_env
       [(PROP_DOUBLE_CLICK_TIME, G_int 400), (PROP_DND_DRAG_THRESHOLD, G_int 8)] loaded_settings
   \<and> snd (sync_mouse_options fifo_queue no_scale_env loaded_settings) =
       [Notify PROP_DOUBLE_CLICK_TIME, Notify PROP_DND_DRAG_THRESHOLD,
        G_signal_emit_by_name ''settings-changed'']
   \<and> filter seen_by_backend (snd (sync_mouse_options fifo_queue no_scale_env loaded_settings)) =
       [G_signal_emit_by_name ''settings-changed'']
   \<and> snd (g_object_set fifo_queue no_scale_env [(PROP_UNSCALED_FONT_DPI, G_int 98304)]
          attached_settings) =
       [G_signal_emit_by_name ''resolution-changed'']
   \<and> count_list
       (snd (g_object_set fifo_queue no_scale_env [(PROP_UNSCALED_FONT_DPI, G_int 98304)]
          attached_settings))
       (G_signal_emit_by_name ''settings-changed'') = 0"
proof -
  have mouse: "sync_mouse_options fifo_queue no_scale_env loaded_settings =
     g_object_set fifo_queue no_scale_env
       [(PROP_DOUBLE_CLICK_TIME, G_int 400), (PROP_DND_DRAG_THRESHOLD, G_int 8)] loaded_settings"
    by (simp add: sync_mouse_options_def g_settings_get_int_def loaded_settings_def
        mouse_store_def)
  have trace: "snd (g_object_set fifo_queue no_scale_env
       [(PROP_DOUBLE_CLICK_TIME, G_int 400), (PROP_DND_DRAG_THRESHOLD, G_int 8)]
       loaded_settings) =
       [Notify PROP_DOUBLE_CLICK_TIME, Notify PROP_DND_DRAG_THRESHOLD,
        G_signal_emit_by_name ''settings-changed'']"
    by (simp add: g_object_set_def Let_def fifo_queue_def g_object_notify_queue_add_def
        clutter_settings_dispatch_properties_changed_def g_object_dispatch_properties_changed_def
        loaded_settings_def attached_settings_def clutter_settings_init_def
        g_value_get_int_def)
  have unscaled: "snd (g_object_set fifo_queue no_scale_env
       [(PROP_UNSCALED_FONT_DPI, G_int 98304)] attached_settings) =
       [G_signal_emit_by_name ''resolution-changed'']"
    by (simp add: g_object_set_def Let_def settings_update_resolution_def
        attached_settings_def clutter_settings_init_def g_value_get_int_def
        no_scale_env_def case_prod_beta split: option.splits)
  show ?thesis
    unfolding mouse trace unfolding unscaled by simp
qed

lemma set_property_a11y_store:
  "mouse_a11y_settings (fst (clutter_settings_set_property E p v self)) = mouse_a11y_settings self"
  by (cases p) (simp_all add: settings_update_resolution_def Let_def split: option.splits)

lemma set_properties_a11y_store:
  "mouse_a11y_settings (fst (set_properties E ws self)) = mouse_a11y_settings self"
proof (induction ws arbitrary: self)
  case Nil
  show ?case by simp
next
  case (Cons w ws)
  show ?case
    unfolding fst_set_properties_Cons by (simp add: Cons.IH set_property_a11y_store)
qed

section \<open>Pointer accessibility without its schema\<close>

lemma binary64_mul_1000_zero: "binary64_mul (Finite 1000) (Finite 0) = Finite 0"
  by (simp add: binary64_round_def binary64_nearest_def pow2_def)

text \<open>
  The delays are rounded products: 1.2 seconds, held as the nearest double, gives 1200
  milliseconds.
\<close>

lemma delay_of_1_2_seconds:
  "double_to_int no_scale_env
     (binary64_mul (Finite 1000) (Finite (5404319552844595 / 4503599627370496))) = 1200"
proof -
  have "binary64_mul (Finite 1000) (Finite (5404319552844595 / 4503599627370496)) =
      Finite 1200"
    by code_simp
  then show ?thesis
    by (simp add: double_to_int_def c_trunc_def del: binary64_mul.simps)
qed

lemma sync_pointer_a11y_settings_null_store:
  assumes "mouse_a11y_settings self = None"
  shows "sync_pointer_a11y_settings E self seat =
           seat\<lparr>pointer_a11y_settings :=
                  \<lparr>controls = {},
                   dwell_gesture_single = CLUTTER_A11Y_DWELL_DIRECTION_NONE,
                   dwell_gesture_double = CLUTTER_A11Y_DWELL_DIRECTION_NONE,
                   dwell_gesture_drag = CLUTTER_A11Y_DWELL_DIRECTION_NONE,
                   dwell_gesture_secondary = CLUTTER_A11Y_DWELL_DIRECTION_NONE,
                   dwell_mode = CLUTTER_A11Y_DWELL_MODE_GESTURE,
                   secondary_click_delay = 0,
                   dwell_delay = 0,
                   dwell_threshold = 0\<rparr>\<rparr>"
proof -
  have delay: "double_to_int E (binary64_mul (Finite 1000) (Finite 0)) = 0"
    unfolding binary64_mul_1000_zero by (simp add: double_to_int_def c_trunc_def)
  show ?thesis
    using assms delay
    by (simp add: sync_pointer_a11y_settings_def Let_def g_settings_get_boolean_def
        g_settings_get_double_def g_settings_get_int_def g_settings_get_enum_def
        pointer_a11y_settings_flags_pair_def
        pointer_a11y_dwell_direction_from_setting_def G_DESKTOP_MOUSE_DWELL_MODE_WINDOW_def
        G_DESKTOP_MOUSE_DWELL_DIRECTION_LEFT_def G_DESKTOP_MOUSE_DWELL_DIRECTION_RIGHT_def
        G_DESKTOP_MOUSE_DWELL_DIRECTION_UP_def G_DESKTOP_MOUSE_DWELL_DIRECTION_DOWN_def
        del: binary64_mul.simps)
qed

lemma load_initial_settings_a11y_missing:
  assumes "source mouse_a11y_settings_path = None" and "mouse_a11y_settings self = None"
  shows "mouse_a11y_settings (fst (load_initial_settings nqueue E source self)) = None"
    and "G_warning (''Failed to find schema: '' @ mouse_settings_path) \<in>
           set (snd (load_initial_settings nqueue E source self))"
  using assms
  by (simp_all add: load_initial_settings_def Let_def case_prod_beta sync_mouse_options_def
      fst_g_object_set set_properties_a11y_store split: option.splits)

text \<open>
  Claim C7, evaluated. With the accessibility schema missing, attaching the backend
  leaves the store pointer null and logs a warning (naming the mouse schema). A later
  \<^verbatim>\<open>clutter_settings_ensure_pointer_a11y_settings\<close> is not a no-op: it replaces the seat's
  bundle, here one with dwell clicking on, by the bundle read from the null store.
\<close>

theorem a11y_sync_with_missing_schema:
  "mouse_a11y_settings
     (fst (clutter_settings_set_backend fifo_queue no_scale_env sample_schemas
        clutter_settings_init ClutterBackend)) = None
   \<and> G_warning ''Failed to find schema: org.gnome.desktop.peripherals.mouse'' \<in>
       set (snd (clutter_settings_set_backend fifo_queue no_scale_env sample_schemas
         clutter_settings_init ClutterBackend))
   \<and> clutter_settings_ensure_pointer_a11y_settings no_scale_env
       (fst (clutter_settings_set_backend fifo_queue no_scale_env sample_schemas
          clutter_settings_init ClutterBackend)) dwell_seat =
       \<lparr>pointer_a11y_settings =
          \<lparr>controls = {},
           dwell_gesture_single = CLUTTER_A11Y_DWELL_DIRECTION_NONE,
           dwell_gesture_double = CLUTTER_A11Y_DWELL_DIRECTION_NONE,
           dwell_gesture_drag = CLUTTER_A11Y_DWELL_DIRECTION_NONE,
           dwell_gesture_secondary = CLUTTER_A11Y_DWELL_DIRECTION_NONE,
           dwell_mode = CLUTTER_A11Y_DWELL_MODE_GESTURE,
           secondary_click_delay = 0,
           dwell_delay = 0,
           dwell_threshold = 0\<rparr>\<rparr>
   \<and> clutter_settings_ensure_pointer_a11y_settings no_scale_env
       (fst (clutter_settings_set_backend fifo_queue no_scale_env sample_schemas
          clutter_settings_init ClutterBackend)) dwell_seat \<noteq> dwell_seat"
proof -
  let ?s = "fst (clutter_settings_set_backend fifo_queue no_scale_env sample_schemas
              clutter_settings_init ClutterBackend)"
  have missing: "sample_schemas mouse_a11y_settings_path = None"
    by (simp add: sample_schemas_def mouse_a11y_settings_path_def font_settings_path_def
        mouse_settings_path_def)
  have start: "mouse_a11y_settings (clutter_settings_init\<lparr>backend := Some ClutterBackend\<rparr>) = None"
    by (simp add: clutter_settings_init_def)
  have null: "mouse_a11y_settings ?s = None"
    unfolding clutter_settings_set_backend_def
    using missing start by (rule load_initial_settings_a11y_missing(1))
  have warned: "G_warning (''Failed to find schema: '' @ mouse_settings_path) \<in>
       set (snd (clutter_settings_set_backend fifo_queue no_scale_env sample_schemas
         clutter_settings_init ClutterBackend))"
    unfolding clutter_settings_set_backend_def
    using missing start by (rule load_initial_settings_a11y_missing(2))
  have synced: "clutter_settings_ensure_pointer_a11y_settings no_scale_env ?s dwell_seat =
       \<lparr>pointer_a11y_settings =
          \<lparr>controls = {},
           dwell_gesture_single = CLUTTER_A11Y_DWELL_DIRECTION_NONE,
           dwell_gesture_double = CLUTTER_A11Y_DWELL_DIRECTION_NONE,
           dwell_gesture_drag = CLUTTER_A11Y_DWELL_DIRECTION_NONE,
           dwell_gesture_secondary = CLUTTER_A11Y_DWELL_DIRECTION_NONE,
           dwell_mode = CLUTTER_A11Y_DWELL_MODE_GESTURE,
           secondary_click_delay = 0,
           dwell_delay = 0,
           dwell_threshold = 0\<rparr>\<rparr>"
    unfolding clutter_settings_ensure_pointer_a11y_settings_def
      sync_pointer_a11y_settings_null_store [OF null]
    by (simp add: dwell_seat_def)
  have differs: "clutter_settings_ensure_pointer_a11y_settings no_scale_env ?s dwell_seat \<noteq>
      dwell_seat"
    unfolding synced by (simp add: dwell_seat_def)
  from null warned synced differs show ?thesis
    by (simp add: mouse_settings_path_def)
qed

end
